theory Spec2Isabelle
  imports Complex_Main
begin

section \<open>Python values\<close>

text \<open>
  The bot passes JSON payloads and plain dictionaries around. A JSON payload as
  \<^verbatim>\<open>res.json()\<close> returns it is a value of \<open>pyval\<close>; a dictionary is an association
  list whose first binding of a key is the one in force. A float is the exact rational value
  of an IEEE double, or one of the three special values; every operation that produces a
  float rounds to the nearest double (\<open>round_to_double\<close> below). Negative zero is not
  kept apart from zero: the code only tests zero for truth and equality.
\<close>

datatype py_error =
    ValueError | TypeError | KeyError | AttributeError | IndexError | OverflowError
  | JSONDecodeError | RequestException | TelegramError

datatype pyfloat = Fin rat | PosInf | NegInf | NaN

datatype pyval =
    PNone
  | PBool bool
  | PInt int
  | PFloat pyfloat
  | PStr string
  | PList "pyval list"
  | PDict "(string \<times> pyval) list"

text \<open>A computation that may raise: \<open>Inl\<close> is the exception, \<open>Inr\<close> the value.\<close>

definition bnd :: "py_error + 'a \<Rightarrow> ('a \<Rightarrow> py_error + 'b) \<Rightarrow> py_error + 'b" where
  "bnd m f = (case m of Inl e \<Rightarrow> Inl e | Inr x \<Rightarrow> f x)"

section \<open>Floats\<close>

definition pow2 :: "int \<Rightarrow> rat" where
  "pow2 e = (if 0 \<le> e then 2 ^ nat e else 1 / 2 ^ nat (- e))"

definition pow10 :: "int \<Rightarrow> rat" where
  "pow10 e = (if 0 \<le> e then 10 ^ nat e else 1 / 10 ^ nat (- e))"

text \<open>Rounding to the nearest integer, ties to the even one.\<close>

definition round_half_even :: "rat \<Rightarrow> int" where
  "round_half_even x =
     (let f = \<lfloor>x\<rfloor>; d = x - of_int f
      in if d < 1 / 2 then f else if 1 / 2 < d then f + 1 else if even f then f else f + 1)"

text \<open>The number of digits of a positive integer in base \<open>b\<close> (0 for 0).\<close>

function ndigits :: "int \<Rightarrow> int \<Rightarrow> int" where
  "ndigits b n = (if n \<le> 0 \<or> b < 2 then 0 else 1 + ndigits b (n div b))"
  by pat_completeness auto
termination
proof (relation "measure (\<lambda>(b, n). nat n)")
  show "wf (measure (\<lambda>(b, n). nat n))"
    by simp
next
  fix b n :: int
  assume "\<not> (n \<le> 0 \<or> b < 2)"
  then have "0 < n" and "2 \<le> b"
    by simp_all
  then have "n div b < n"
    by (simp add: int_div_less_self)
  with \<open>0 < n\<close> show "((b, n div b), (b, n)) \<in> measure (\<lambda>(b, n). nat n)"
    by simp
qed

declare ndigits.simps [simp del]

text \<open>\<open>ilog b a\<close> is the floor of the base-\<open>b\<close> logarithm of a positive rational.\<close>

definition bpow :: "int \<Rightarrow> int \<Rightarrow> rat" where
  "bpow b e = (if 0 \<le> e then of_int b ^ nat e else 1 / of_int b ^ nat (- e))"

definition ilog :: "int \<Rightarrow> rat \<Rightarrow> int" where
  "ilog b a =
     (let (p, q) = quotient_of a;
          e0 = ndigits b p - ndigits b q
      in if bpow b e0 \<le> a then e0 else e0 - 1)"

text \<open>
  Rounding a rational to the nearest IEEE double, ties to even: 53 bits of precision, least
  normal exponent \<open>-1022\<close> with the subnormals below it. The significand \<open>m\<close> is at
  most \<open>2 ^ 53\<close>, so the rounded value \<open>m * 2 ^ (e - 52)\<close> reaches \<open>2 ^ 1024\<close>, which
  is infinity, exactly when \<open>e\<close> is above 1023, or is 1023 and \<open>m\<close> is \<open>2 ^ 53\<close>.
\<close>

definition round_to_double :: "rat \<Rightarrow> pyfloat" where
  "round_to_double x =
     (if x = 0 then Fin 0
      else let a = \<bar>x\<bar>;
               e = max (ilog 2 a) (- 1022);
               q = pow2 (e - 52);
               m = round_half_even (a / q)
           in if 1023 < e \<or> (e = 1023 \<and> 2 ^ 53 \<le> m)
              then (if x < 0 then NegInf else PosInf)
              else Fin (if x < 0 then - (of_int m * q) else of_int m * q))"

text \<open>Comparison and division of floats; every comparison with \<open>NaN\<close> is false.\<close>

fun flt_lt :: "pyfloat \<Rightarrow> pyfloat \<Rightarrow> bool" where
  "flt_lt NaN _ = False"
| "flt_lt _ NaN = False"
| "flt_lt (Fin a) (Fin b) = (a < b)"
| "flt_lt (Fin a) PosInf = True"
| "flt_lt NegInf (Fin b) = True"
| "flt_lt NegInf PosInf = True"
| "flt_lt _ _ = False"

fun flt_eq :: "pyfloat \<Rightarrow> pyfloat \<Rightarrow> bool" where
  "flt_eq NaN _ = False"
| "flt_eq _ NaN = False"
| "flt_eq a b = (a = b)"

definition flt_ge :: "pyfloat \<Rightarrow> pyfloat \<Rightarrow> bool" where
  "flt_ge a b = (flt_lt b a \<or> flt_eq a b)"

text \<open>\<open>value / d\<close> for a finite positive divisor \<open>d\<close>, as the code divides.\<close>

fun flt_div :: "pyfloat \<Rightarrow> rat \<Rightarrow> pyfloat" where
  "flt_div (Fin a) d = round_to_double (a / d)"
| "flt_div f d = f"

section \<open>Strings\<close>

text \<open>\<^verbatim>\<open>str.isspace\<close> on the characters below 256, and \<^verbatim>\<open>str.strip()\<close>.\<close>

definition py_isspace :: "char \<Rightarrow> bool" where
  "py_isspace c =
     (let n = (of_char c :: nat)
      in (9 \<le> n \<and> n \<le> 13) \<or> (28 \<le> n \<and> n \<le> 32) \<or> n = 133 \<or> n = 160)"

definition lstrip :: "string \<Rightarrow> string" where
  "lstrip s = dropWhile py_isspace s"

definition strip :: "string \<Rightarrow> string" where
  "strip s = rev (lstrip (rev (lstrip s)))"

text \<open>\<^verbatim>\<open>s.rstrip(cs)\<close>: drop the trailing characters that belong to \<open>cs\<close>.\<close>

definition rstrip :: "string \<Rightarrow> string \<Rightarrow> string" where
  "rstrip cs s = rev (dropWhile (\<lambda>c. c \<in> set cs) (rev s))"

definition is_digit :: "char \<Rightarrow> bool" where
  "is_digit c = (let n = (of_char c :: nat) in 48 \<le> n \<and> n \<le> 57)"

definition digit_val :: "char \<Rightarrow> int" where
  "digit_val c = of_char c - 48"

definition digit_char :: "int \<Rightarrow> char" where
  "digit_char d = char_of (48 + d)"

definition digits_val :: "string \<Rightarrow> int" where
  "digits_val s = foldl (\<lambda>a c. 10 * a + digit_val c) 0 s"

text \<open>The decimal digits of a non-negative integer.\<close>

function dec :: "int \<Rightarrow> string" where
  "dec n = (if n < 10 then [digit_char n] else dec (n div 10) @ [digit_char (n mod 10)])"
  by pat_completeness auto
termination
  by (relation "measure nat") auto

declare dec.simps [simp del]

definition dec_int :: "int \<Rightarrow> string" where
  "dec_int i = (if i < 0 then ''-'' @ dec (- i) else dec i)"

definition zero_pad :: "nat \<Rightarrow> string \<Rightarrow> string" where
  "zero_pad n s = replicate (n - length s) (CHR ''0'') @ s"

text \<open>
  \<^verbatim>\<open>f"{value:.nf}"\<close>: the float in fixed notation with \<open>n\<close> fractional digits, correctly
  rounded (ties to even), the sign that of the float.
\<close>

definition fmt_fixed :: "nat \<Rightarrow> pyfloat \<Rightarrow> string" where
  "fmt_fixed n f =
     (case f of
        NaN \<Rightarrow> ''nan''
      | PosInf \<Rightarrow> ''inf''
      | NegInf \<Rightarrow> ''-inf''
      | Fin r \<Rightarrow>
          (let k = round_half_even (\<bar>r\<bar> * 10 ^ n)
           in (if r < 0 then ''-'' else []) @ dec (k div 10 ^ n) @
              (if n = 0 then [] else ''.'' @ zero_pad n (dec (k mod 10 ^ n)))))"

subsection \<open>\<^verbatim>\<open>float(s)\<close> for a string\<close>

definition to_lower :: "char \<Rightarrow> char" where
  "to_lower c =
     (let n = (of_char c :: nat) in if 65 \<le> n \<and> n \<le> 90 then char_of (n + 32) else c)"

text \<open>
  An underscore is accepted between two digits only; \<open>underscores_ok prev s\<close> checks the
  rest \<open>s\<close> of the string after the character \<open>prev\<close>.
\<close>

fun underscores_ok :: "char \<Rightarrow> string \<Rightarrow> bool" where
  "underscores_ok prev [] = True"
| "underscores_ok prev (c # cs) =
     (if c = CHR ''_''
      then is_digit prev \<and> (case cs of [] \<Rightarrow> False | d # _ \<Rightarrow> is_digit d) \<and>
           underscores_ok c cs
      else underscores_ok c cs)"

definition split_sign :: "string \<Rightarrow> bool \<times> string" where
  "split_sign s =
     (case s of
        c # cs \<Rightarrow> if c = CHR ''-'' then (True, cs) else if c = CHR ''+'' then (False, cs)
                  else (False, s)
      | [] \<Rightarrow> (False, s))"

text \<open>
  The exponent part: nothing, or \<open>e\<close>/\<open>E\<close>, an optional sign and at least one digit,
  up to the end of the string.
\<close>

definition parse_exponent :: "string \<Rightarrow> int option" where
  "parse_exponent s =
     (case s of
        [] \<Rightarrow> Some 0
      | c # cs \<Rightarrow>
          if to_lower c = CHR ''e''
          then (let (neg, ds) = split_sign cs
                in if ds \<noteq> [] \<and> list_all is_digit ds
                   then Some (if neg then - digits_val ds else digits_val ds)
                   else None)
          else None)"

text \<open>A decimal numeral without its sign: digits, an optional point, an optional exponent.\<close>

definition parse_decimal :: "string \<Rightarrow> rat option" where
  "parse_decimal s =
     (let ip = takeWhile is_digit s;
          s1 = dropWhile is_digit s;
          has_point = (s1 \<noteq> [] \<and> hd s1 = CHR ''.'');
          fp = (if has_point then takeWhile is_digit (tl s1) else []);
          s2 = (if has_point then dropWhile is_digit (tl s1) else s1)
      in if ip = [] \<and> fp = [] then None
         else (case parse_exponent s2 of
                 None \<Rightarrow> None
               | Some e \<Rightarrow>
                   Some (of_int (digits_val (ip @ fp)) * pow10 (e - int (length fp)))))"

text \<open>
  \<^verbatim>\<open>float\<close> skips the surrounding white space of the string, which for it leaves out the
  four separators \<open>0x1C\<close> to \<open>0x1F\<close> that \<^verbatim>\<open>str.strip\<close> drops.
\<close>

definition float_isspace :: "char \<Rightarrow> bool" where
  "float_isspace c =
     (let n = (of_char c :: nat) in (9 \<le> n \<and> n \<le> 13) \<or> n = 32 \<or> n = 133 \<or> n = 160)"

definition float_of_string :: "string \<Rightarrow> py_error + pyfloat" where
  "float_of_string s0 =
     (let s = rev (dropWhile float_isspace (rev (dropWhile float_isspace s0)))
      in if s = [] \<or> \<not> underscores_ok (CHR '' '') s then Inl ValueError
         else let (neg, body) = split_sign (filter (\<lambda>c. c \<noteq> CHR ''_'') s);
                  low = map to_lower body
              in if low = ''inf'' \<or> low = ''infinity''
                 then Inr (if neg then NegInf else PosInf)
                 else if low = ''nan'' then Inr NaN
                 else (case parse_decimal body of
                         None \<Rightarrow> Inl ValueError
                       | Some r \<Rightarrow> Inr (round_to_double (if neg then - r else r))))"

text \<open>\<^verbatim>\<open>float(value)\<close> for any value.\<close>

definition py_float :: "pyval \<Rightarrow> py_error + pyfloat" where
  "py_float v =
     (case v of
        PFloat f \<Rightarrow> Inr f
      | PInt i \<Rightarrow>
          (case round_to_double (of_int i) of
             Fin r \<Rightarrow> Inr (Fin r)
           | _ \<Rightarrow> Inl OverflowError)
      | PBool b \<Rightarrow> Inr (Fin (if b then 1 else 0))
      | PStr s \<Rightarrow> float_of_string s
      | _ \<Rightarrow> Inl TypeError)"

section \<open>The numeric formatter\<close>

text \<open>The float literals \<^verbatim>\<open>0.01\<close> and \<^verbatim>\<open>0.000001\<close> of the source.\<close>

definition lit_0_01 :: pyfloat where
  "lit_0_01 = round_to_double (1 / 100)"

definition lit_0_000001 :: pyfloat where
  "lit_0_000001 = round_to_double (1 / 1000000)"

definition format_number :: "pyval \<Rightarrow> string" where
  "format_number v =
     (case py_float v of
        Inl e \<Rightarrow> ''N/A''
      | Inr value \<Rightarrow>
          if flt_eq value (Fin 0) then ''$0''
          else if flt_lt value lit_0_01 then
            (if flt_lt value lit_0_000001
             then rstrip ''.'' (rstrip ''0'' (''$'' @ fmt_fixed 10 value))
             else rstrip ''.'' (rstrip ''0'' (''$'' @ fmt_fixed 8 value)))
          else if flt_ge value (Fin 1000000)
            then ''$'' @ fmt_fixed 2 (flt_div value 1000000) @ ''M''
          else if flt_ge value (Fin 1000)
            then ''$'' @ fmt_fixed 2 (flt_div value 1000) @ ''K''
          else ''$'' @ fmt_fixed 4 value)"

section \<open>Operations on values\<close>

text \<open>Truth value testing (\<^verbatim>\<open>not x\<close>, \<^verbatim>\<open>if x\<close>, \<^verbatim>\<open>x or y\<close>).\<close>

fun py_truthy :: "pyval \<Rightarrow> bool" where
  "py_truthy PNone = False"
| "py_truthy (PBool b) = b"
| "py_truthy (PInt i) = (i \<noteq> 0)"
| "py_truthy (PFloat f) = (f \<noteq> Fin 0)"
| "py_truthy (PStr s) = (s \<noteq> [])"
| "py_truthy (PList xs) = (xs \<noteq> [])"
| "py_truthy (PDict kvs) = (kvs \<noteq> [])"

text \<open>\<^verbatim>\<open>d.get(key, default)\<close>: only a dictionary has the method.\<close>

fun py_get :: "pyval \<Rightarrow> string \<Rightarrow> pyval \<Rightarrow> py_error + pyval" where
  "py_get (PDict kvs) key dflt = Inr (case map_of kvs key of Some v \<Rightarrow> v | None \<Rightarrow> dflt)"
| "py_get _ key dflt = Inl AttributeError"

text \<open>\<^verbatim>\<open>d[key]\<close> for a string key.\<close>

fun py_getitem :: "pyval \<Rightarrow> string \<Rightarrow> py_error + pyval" where
  "py_getitem (PDict kvs) key = (case map_of kvs key of Some v \<Rightarrow> Inr v | None \<Rightarrow> Inl KeyError)"
| "py_getitem _ key = Inl TypeError"

fun is_infix :: "string \<Rightarrow> string \<Rightarrow> bool" where
  "is_infix xs [] = (xs = [])"
| "is_infix xs (y # ys) = (take (length xs) (y # ys) = xs \<or> is_infix xs ys)"

text \<open>
  \<^verbatim>\<open>key in c\<close> for a string key: a key of a dictionary, an element of a list, a substring
  of a string; other values are not containers.
\<close>

fun py_contains :: "string \<Rightarrow> pyval \<Rightarrow> py_error + bool" where
  "py_contains key (PDict kvs) = Inr (map_of kvs key \<noteq> None)"
| "py_contains key (PList xs) = Inr (PStr key \<in> set xs)"
| "py_contains key (PStr s) = Inr (is_infix key s)"
| "py_contains key _ = Inl TypeError"

fun py_len :: "pyval \<Rightarrow> py_error + nat" where
  "py_len (PDict kvs) = Inr (length (remdups (map fst kvs)))"
| "py_len (PList xs) = Inr (length xs)"
| "py_len (PStr s) = Inr (length s)"
| "py_len _ = Inl TypeError"

text \<open>The elements an iteration over the value yields.\<close>

fun py_iter :: "pyval \<Rightarrow> py_error + pyval list" where
  "py_iter (PDict kvs) = Inr (map PStr (remdups (map fst kvs)))"
| "py_iter (PList xs) = Inr xs"
| "py_iter (PStr s) = Inr (map (\<lambda>c. PStr [c]) s)"
| "py_iter _ = Inl TypeError"

text \<open>\<^verbatim>\<open>v == n\<close> for an integer \<open>n\<close>: numbers compare by value, anything else is unequal.\<close>

fun py_eq_int :: "pyval \<Rightarrow> int \<Rightarrow> bool" where
  "py_eq_int (PInt i) n = (i = n)"
| "py_eq_int (PFloat f) n = (f = Fin (of_int n))"
| "py_eq_int (PBool b) n = ((if b then 1 else 0) = n)"
| "py_eq_int _ n = False"

text \<open>Applying a function that may raise to every element, in order.\<close>

fun map_err :: "('a \<Rightarrow> py_error + 'b) \<Rightarrow> 'a list \<Rightarrow> py_error + 'b list" where
  "map_err f [] = Inr []"
| "map_err f (x # xs) = bnd (f x) (\<lambda>y. bnd (map_err f xs) (\<lambda>ys. Inr (y # ys)))"

subsection \<open>\<^verbatim>\<open>str(value)\<close>\<close>

text \<open>
  The shortest decimal numeral that reads back as the same double: with \<open>n\<close> significant
  digits only the two neighbours of the value can do so, and the nearer one is taken.
\<close>

definition shortest_at :: "rat \<Rightarrow> nat \<Rightarrow> (int \<times> int) option" where
  "shortest_at a n =
     (let e = ilog 10 a - int n + 1;
          s = pow10 e;
          lo = \<lfloor>a / s\<rfloor>;
          hi = lo + 1;
          okl = (round_to_double (of_int lo * s) = Fin a);
          okh = (round_to_double (of_int hi * s) = Fin a);
          dl = a - of_int lo * s;
          dh = of_int hi * s - a
      in if okl \<and> okh then Some (if dl < dh \<or> (dl = dh \<and> even lo) then lo else hi, e)
         else if okl then Some (lo, e)
         else if okh then Some (hi, e)
         else None)"

definition shortest_digits :: "rat \<Rightarrow> int \<times> int" where
  "shortest_digits a =
     (case List.map_filter (shortest_at a) [1..<18] of
        x # _ \<Rightarrow> x
      | [] \<Rightarrow> (let e = ilog 10 a - 16 in (round_half_even (a / pow10 e), e)))"

definition repr_float :: "pyfloat \<Rightarrow> string" where
  "repr_float f =
     (case f of
        NaN \<Rightarrow> ''nan''
      | PosInf \<Rightarrow> ''inf''
      | NegInf \<Rightarrow> ''-inf''
      | Fin r \<Rightarrow>
          if r = 0 then ''0.0''
          else
            (let (d, e) = shortest_digits \<bar>r\<bar>;
                 ds = rstrip ''0'' (dec d);
                 decpt = e + int (length (dec d));
                 sign = (if r < 0 then ''-'' else [])
             in if - 4 < decpt \<and> decpt \<le> 16 then
                  (if decpt \<le> 0 then sign @ ''0.'' @ replicate (nat (- decpt)) (CHR ''0'') @ ds
                   else if int (length ds) \<le> decpt
                     then sign @ ds @ replicate (nat decpt - length ds) (CHR ''0'') @ ''.0''
                   else sign @ take (nat decpt) ds @ ''.'' @ drop (nat decpt) ds)
                else sign @ take 1 ds @ (if length ds \<le> 1 then [] else ''.'' @ drop 1 ds) @
                     ''e'' @ (if decpt - 1 < 0 then ''-'' else ''+'') @
                     zero_pad 2 (dec \<bar>decpt - 1\<bar>)))"

definition hex_digit :: "nat \<Rightarrow> char" where
  "hex_digit d = (if d < 10 then char_of (48 + d) else char_of (87 + d))"

text \<open>
  A character inside the \<^verbatim>\<open>repr\<close> of a string, quoted by \<open>q\<close>: backslash, the
  quote and the control characters are escaped.
\<close>

definition repr_char :: "char \<Rightarrow> char \<Rightarrow> string" where
  "repr_char q c =
     (let n = (of_char c :: nat)
      in if n = 92 then [CHR 0x5C, CHR 0x5C]
         else if c = q then [CHR 0x5C, q]
         else if n = 10 then [CHR 0x5C, CHR ''n'']
         else if n = 13 then [CHR 0x5C, CHR ''r'']
         else if n = 9 then [CHR 0x5C, CHR ''t'']
         else if n < 32 \<or> (127 \<le> n \<and> n \<le> 160) \<or> n = 173
           then [CHR 0x5C, CHR ''x'', hex_digit (n div 16), hex_digit (n mod 16)]
         else [c])"

definition repr_str :: "string \<Rightarrow> string" where
  "repr_str s =
     (let q = (if CHR 0x27 \<in> set s \<and> CHR 0x22 \<notin> set s then CHR 0x22 else CHR 0x27)
      in [q] @ concat (map (repr_char q) s) @ [q])"

fun join_comma :: "string list \<Rightarrow> string" where
  "join_comma [] = []"
| "join_comma [x] = x"
| "join_comma (x # y # ys) = x @ '', '' @ join_comma (y # ys)"

fun py_repr :: "pyval \<Rightarrow> string" where
  "py_repr PNone = ''None''"
| "py_repr (PBool b) = (if b then ''True'' else ''False'')"
| "py_repr (PInt i) = dec_int i"
| "py_repr (PFloat f) = repr_float f"
| "py_repr (PStr s) = repr_str s"
| "py_repr (PList xs) = ''['' @ join_comma (map py_repr xs) @ '']''"
| "py_repr (PDict kvs) =
     ''{'' @ join_comma (map (\<lambda>kv. repr_str (fst kv) @ '': '' @ py_repr (snd kv)) kvs) @ ''}''"

definition py_str :: "pyval \<Rightarrow> string" where
  "py_str v = (case v of PStr s \<Rightarrow> s | _ \<Rightarrow> py_repr v)"

section \<open>The outside world\<close>

datatype adapter = DexScreener | Birdeye | Jupiter | Helius

text \<open>
  What a request gives: \<^verbatim>\<open>requests\<close> raises (timeout, connection error), or there is a
  response with its status code and its body as \<^verbatim>\<open>res.json()\<close> reads it (\<open>None\<close> when
  \<^verbatim>\<open>res.json()\<close> raises).
\<close>

datatype http_outcome = Request_failed | Response int "pyval option"

text \<open>
  \<open>sort_with_nan\<close> stands for \<^verbatim>\<open>sorted\<close> on keys some of which are \<open>NaN\<close>: every
  comparison with \<open>NaN\<close> is false, the keys are not totally ordered, and the order of the
  result is whatever the comparisons of the sorting algorithm make it. \<open>sol_balance\<close> is the
  balance \<^verbatim>\<open>get_sol_balance\<close> returns for a wallet, and \<open>telegram_ok n\<close> tells whether the
  call to the chat transport made as effect number \<open>n\<close> succeeds.
\<close>

record world =
  http :: "adapter \<Rightarrow> string \<Rightarrow> http_outcome"
  sort_with_nan :: "(pyfloat \<times> pyval) list \<Rightarrow> pyval list"
  sol_balance :: "string \<Rightarrow> pyfloat"
  telegram_ok :: "nat \<Rightarrow> bool"

section \<open>Quotes\<close>

text \<open>The dictionary an adapter returns.\<close>

record raw_quote =
  price :: pyval
  liquidity :: pyval
  market_cap :: pyval
  token_name :: pyval
  token_symbol :: pyval
  source :: string

text \<open>
  The dictionary \<^verbatim>\<open>fetch_token_info\<close> returns; \<open>res_price_raw\<close> and \<open>res_error_msg\<close>
  are \<open>None\<close> where the dictionary has no such key.
\<close>

record resolved =
  res_price :: string
  res_price_raw :: "pyval option"
  res_liquidity :: string
  res_market_cap :: string
  res_token_name :: pyval
  res_token_symbol :: pyval
  res_source :: string
  res_error :: bool
  res_error_msg :: "string option"

section \<open>Conversation state and effects\<close>

record user =
  wallet :: string
  balance :: pyfloat
  private_key :: string
  awaiting_contract :: "bool option"
  awaiting_withdraw_x_amount :: "bool option"
  withdraw_x_amount :: "string option"

text \<open>The messages the bot sends, by what they show.\<close>

datatype view =
    Welcome pyfloat string
  | Wallet_view string pyfloat
  | Balance_refreshed string pyfloat
  | Buy_prompt
  | Help_view
  | Limit_orders_view
  | Tp_sl_prompt
  | Withdraw_all_prompt
  | Withdraw_x_prompt
  | Export_warning
  | Private_key_view string
  | Setkey_usage
  | Setkey_done
  | Destination_prompt
  | Loading
  | Lookup_failed resolved string
  | Token_view resolved string

datatype effect =
    Http_request adapter string
  | Rpc_get_balance string
  | Answer_callback
  | Reply view
  | Edit_message view
  | Delete_message

text \<open>
  The state of the process: the global \<^verbatim>\<open>users\<close> dictionary, and the effects so far, each
  with the \<^verbatim>\<open>users\<close> dictionary as it was when the effect took place.
\<close>

record bot_state =
  users :: "int \<Rightarrow> user option"
  trace :: "(effect \<times> (int \<Rightarrow> user option)) list"

definition emit :: "effect \<Rightarrow> bot_state \<Rightarrow> bot_state" where
  "emit e st = st\<lparr>trace := trace st @ [(e, users st)]\<rparr>"

section \<open>Provider adapters\<close>

definition json_body :: "pyval option \<Rightarrow> py_error + pyval" where
  "json_body body = (case body of None \<Rightarrow> Inl JSONDecodeError | Some data \<Rightarrow> Inr data)"

text \<open>\<^verbatim>\<open>try: ... except Exception: return None\<close>\<close>

definition except_none :: "py_error + 'a option \<Rightarrow> 'a option" where
  "except_none m = (case m of Inl e \<Rightarrow> None | Inr r \<Rightarrow> r)"

subsection \<open>DexScreener\<close>

text \<open>The sort key \<^verbatim>\<open>float(x.get("liquidity", {}).get("usd", 0) or 0)\<close>.\<close>

definition liquidity_key :: "pyval \<Rightarrow> py_error + pyfloat" where
  "liquidity_key x =
     bnd (py_get x ''liquidity'' (PDict [])) (\<lambda>l.
     bnd (py_get l ''usd'' (PInt 0)) (\<lambda>usd.
     py_float (if py_truthy usd then usd else PInt 0)))"

text \<open>
  \<^verbatim>\<open>sorted(..., reverse=True)\<close> is stable: of two elements with equal keys the earlier
  stays first.
\<close>

fun insert_desc :: "pyfloat \<times> pyval \<Rightarrow> (pyfloat \<times> pyval) list \<Rightarrow> (pyfloat \<times> pyval) list" where
  "insert_desc x [] = [x]"
| "insert_desc x (y # ys) =
     (if flt_lt (fst x) (fst y) then y # insert_desc x ys else x # y # ys)"

definition sorted_desc :: "world \<Rightarrow> (pyfloat \<times> pyval) list \<Rightarrow> pyval list" where
  "sorted_desc w kxs =
     (if NaN \<in> set (map fst kxs) then sort_with_nan w kxs
      else map snd (foldr insert_desc kxs []))"

definition first_item :: "'a list \<Rightarrow> py_error + 'a" where
  "first_item xs = (case xs of [] \<Rightarrow> Inl IndexError | x # _ \<Rightarrow> Inr x)"

definition dexscreener_try :: "world \<Rightarrow> http_outcome \<Rightarrow> py_error + raw_quote option" where
  "dexscreener_try w res =
     (case res of
        Request_failed \<Rightarrow> Inl RequestException
      | Response status_code body \<Rightarrow>
          if status_code \<noteq> 200 then Inr None
          else
            bnd (json_body body) (\<lambda>data.
            if \<not> py_truthy data then Inr None
            else
              bnd (py_contains ''pairs'' data) (\<lambda>has_pairs.
              if \<not> has_pairs then Inr None
              else
                bnd (py_getitem data ''pairs'') (\<lambda>pairs.
                bnd (py_len pairs) (\<lambda>n.
                if n = 0 then Inr None
                else
                  bnd (py_iter pairs) (\<lambda>items.
                  bnd (map_err liquidity_key items) (\<lambda>keys.
                  bnd (first_item (sorted_desc w (zip keys items))) (\<lambda>pair.
                  bnd (py_get pair ''priceUsd'' (PStr ''0'')) (\<lambda>price.
                  if \<not> py_truthy price \<or> price = PStr ''0'' then Inr None
                  else
                    bnd (py_get pair ''liquidity'' (PDict [])) (\<lambda>liquidity_data.
                    bnd (if py_truthy liquidity_data then py_get liquidity_data ''usd'' (PInt 0)
                         else Inr (PInt 0)) (\<lambda>liquidity.
                    bnd (py_get pair ''fdv'' (PInt 0)) (\<lambda>fdv.
                    bnd (py_get pair ''marketCap'' fdv) (\<lambda>market_cap.
                    bnd (py_get pair ''baseToken'' (PDict [])) (\<lambda>base_token.
                    bnd (py_get base_token ''symbol'' (PStr ''???'')) (\<lambda>logged_symbol.
                    bnd (py_get base_token ''name'' (PStr ''Unknown'')) (\<lambda>name.
                    bnd (py_get base_token ''symbol'' (PStr ''???'')) (\<lambda>symbol.
                    Inr (Some \<lparr>price = price, liquidity = liquidity, market_cap = market_cap,
                               token_name = name, token_symbol = symbol,
                               source = ''DexScreener''\<rparr>))))))))))))))))))"

definition fetch_from_dexscreener ::
    "world \<Rightarrow> string \<Rightarrow> bot_state \<Rightarrow> raw_quote option \<times> bot_state" where
  "fetch_from_dexscreener w contract_address st =
     (except_none (dexscreener_try w (http w DexScreener contract_address)),
      emit (Http_request DexScreener contract_address) st)"

subsection \<open>Birdeye\<close>

definition birdeye_try :: "http_outcome \<Rightarrow> py_error + raw_quote option" where
  "birdeye_try res =
     (case res of
        Request_failed \<Rightarrow> Inl RequestException
      | Response status_code body \<Rightarrow>
          if status_code \<noteq> 200 then Inr None
          else
            bnd (json_body body) (\<lambda>data.
            if \<not> py_truthy data then Inr None
            else
              bnd (py_contains ''data'' data) (\<lambda>has_data.
              if \<not> has_data then Inr None
              else
                bnd (py_getitem data ''data'') (\<lambda>token_data.
                bnd (py_get token_data ''price'' PNone) (\<lambda>price.
                if \<not> py_truthy price \<or> py_eq_int price 0 then Inr None
                else
                  bnd (py_get token_data ''liquidity'' (PInt 0)) (\<lambda>liquidity.
                  bnd (py_get token_data ''mc'' (PInt 0)) (\<lambda>market_cap.
                  bnd (py_get token_data ''symbol'' (PStr ''???'')) (\<lambda>symbol.
                  Inr (Some \<lparr>price = PStr (py_str price), liquidity = liquidity,
                             market_cap = market_cap, token_name = symbol,
                             token_symbol = symbol, source = ''Birdeye''\<rparr>)))))))))"

definition fetch_from_birdeye ::
    "world \<Rightarrow> string \<Rightarrow> bot_state \<Rightarrow> raw_quote option \<times> bot_state" where
  "fetch_from_birdeye w contract_address st =
     (except_none (birdeye_try (http w Birdeye contract_address)),
      emit (Http_request Birdeye contract_address) st)"

subsection \<open>Jupiter\<close>

definition jupiter_try :: "string \<Rightarrow> http_outcome \<Rightarrow> py_error + raw_quote option" where
  "jupiter_try contract_address res =
     (case res of
        Request_failed \<Rightarrow> Inl RequestException
      | Response status_code body \<Rightarrow>
          if status_code \<noteq> 200 then Inr None
          else
            bnd (json_body body) (\<lambda>data.
            if \<not> py_truthy data then Inr None
            else
              bnd (py_contains ''data'' data) (\<lambda>has_data.
              if \<not> has_data then Inr None
              else
                bnd (py_getitem data ''data'') (\<lambda>prices.
                bnd (py_contains contract_address prices) (\<lambda>has_token.
                if \<not> has_token then Inr None
                else
                  bnd (py_getitem prices contract_address) (\<lambda>token_data.
                  bnd (py_get token_data ''price'' PNone) (\<lambda>price.
                  if \<not> py_truthy price \<or> py_eq_int price 0 then Inr None
                  else
                    Inr (Some \<lparr>price = PStr (py_str price), liquidity = PInt 0,
                               market_cap = PInt 0, token_name = PStr ''Unknown'',
                               token_symbol = PStr ''???'', source = ''Jupiter''\<rparr>))))))))"

definition fetch_from_jupiter ::
    "world \<Rightarrow> string \<Rightarrow> bot_state \<Rightarrow> raw_quote option \<times> bot_state" where
  "fetch_from_jupiter w contract_address st =
     (except_none (jupiter_try contract_address (http w Jupiter contract_address)),
      emit (Http_request Jupiter contract_address) st)"

subsection \<open>Helius\<close>

definition helius_das_try :: "http_outcome \<Rightarrow> py_error + raw_quote option" where
  "helius_das_try res =
     (case res of
        Request_failed \<Rightarrow> Inl RequestException
      | Response status_code body \<Rightarrow>
          if status_code \<noteq> 200 then Inr None
          else
            bnd (json_body body) (\<lambda>data.
            if \<not> py_truthy data then Inr None
            else
              bnd (py_contains ''result'' data) (\<lambda>has_result.
              if \<not> has_result then Inr None
              else
                bnd (py_getitem data ''result'') (\<lambda>result.
                bnd (py_get result ''content'' (PDict [])) (\<lambda>content.
                bnd (py_get content ''metadata'' (PDict [])) (\<lambda>metadata.
                bnd (py_get metadata ''name'' (PStr ''Unknown'')) (\<lambda>name.
                bnd (py_get metadata ''symbol'' (PStr ''???'')) (\<lambda>symbol.
                Inr (Some \<lparr>price = PNone, liquidity = PInt 0, market_cap = PInt 0,
                           token_name = name, token_symbol = symbol,
                           source = ''Helius''\<rparr>)))))))))"

definition fetch_from_helius_das ::
    "world \<Rightarrow> string \<Rightarrow> bot_state \<Rightarrow> raw_quote option \<times> bot_state" where
  "fetch_from_helius_das w contract_address st =
     (except_none (helius_das_try (http w Helius contract_address)),
      emit (Http_request Helius contract_address) st)"

section \<open>The resolution pipeline\<close>

definition format_token_result :: "raw_quote \<Rightarrow> py_error + resolved" where
  "format_token_result result =
     bnd (if py_truthy (price result)
          then bnd (py_float (price result)) (\<lambda>f. Inr (PFloat f))
          else Inr (PInt 0)) (\<lambda>price_raw.
     Inr \<lparr>res_price = format_number (price result),
          res_price_raw = Some price_raw,
          res_liquidity = format_number (liquidity result),
          res_market_cap = format_number (market_cap result),
          res_token_name = token_name result,
          res_token_symbol = token_symbol result,
          res_source = source result,
          res_error = False,
          res_error_msg = None\<rparr>)"

text \<open>
  \<^verbatim>\<open>if result and result.get("price")\<close>: the quote when the test succeeds.
\<close>

definition with_price :: "raw_quote option \<Rightarrow> raw_quote option" where
  "with_price result =
     (case result of
        None \<Rightarrow> None
      | Some q \<Rightarrow> if py_truthy (price q) then Some q else None)"

definition price_unavailable :: "raw_quote \<Rightarrow> resolved" where
  "price_unavailable result =
     \<lparr>res_price = ''Price Unavailable'',
      res_price_raw = None,
      res_liquidity = ''Data Unavailable'',
      res_market_cap = ''Data Unavailable'',
      res_token_name = token_name result,
      res_token_symbol = token_symbol result,
      res_source = source result,
      res_error = True,
      res_error_msg = Some
        ''Token found but no price data available. It may not be listed on any DEX yet.''\<rparr>"

definition not_found :: resolved where
  "not_found =
     \<lparr>res_price = ''Not Found'',
      res_price_raw = None,
      res_liquidity = ''Not Found'',
      res_market_cap = ''Not Found'',
      res_token_name = PStr ''Unknown'',
      res_token_symbol = PStr ''???'',
      res_source = ''None'',
      res_error = True,
      res_error_msg = Some
        (''Token not found. Please verify the contract address is correct '' @
         ''and the token is listed on a Solana DEX.'')\<rparr>"

definition fetch_token_info ::
    "world \<Rightarrow> string \<Rightarrow> bot_state \<Rightarrow> (py_error + resolved) \<times> bot_state" where
  "fetch_token_info w contract_address0 st0 =
     (let contract_address = strip contract_address0;
          (result, st1) = fetch_from_dexscreener w contract_address st0
      in case with_price result of
           Some q \<Rightarrow> (format_token_result q, st1)
         | None \<Rightarrow>
             let (result, st2) = fetch_from_birdeye w contract_address st1
             in case with_price result of
                  Some q \<Rightarrow> (format_token_result q, st2)
                | None \<Rightarrow>
                    let (result, st3) = fetch_from_jupiter w contract_address st2
                    in case with_price result of
                         Some q \<Rightarrow>
                           let (metadata, st4) = fetch_from_helius_das w contract_address st3
                           in (case metadata of
                                 Some m \<Rightarrow>
                                   (format_token_result
                                      (q\<lparr>token_name := token_name m,
                                         token_symbol := token_symbol m\<rparr>), st4)
                               | None \<Rightarrow> (format_token_result q, st4))
                       | None \<Rightarrow>
                           let (result, st4) = fetch_from_helius_das w contract_address st3
                           in (case result of
                                 Some m \<Rightarrow> (Inr (price_unavailable m), st4)
                               | None \<Rightarrow> (Inr not_found, st4)))"

section \<open>Handlers\<close>

text \<open>
  A handler runs on the state of the process and returns normally or raises; what it changed
  before raising stays changed.
\<close>

type_synonym 'a prog = "bot_state \<Rightarrow> (py_error + 'a) \<times> bot_state"

definition ret :: "'a \<Rightarrow> 'a prog" where
  "ret x st = (Inr x, st)"

definition seq :: "'a prog \<Rightarrow> ('a \<Rightarrow> 'b prog) \<Rightarrow> 'b prog" where
  "seq m f st = (case m st of (Inl e, st') \<Rightarrow> (Inl e, st') | (Inr x, st') \<Rightarrow> f x st')"

text \<open>\<^verbatim>\<open>try: ... except: pass\<close>\<close>

definition try_pass :: "unit prog \<Rightarrow> unit prog" where
  "try_pass m st = (Inr (), snd (m st))"

text \<open>A call to the chat transport: it happens, and it may raise.\<close>

definition telegram :: "world \<Rightarrow> effect \<Rightarrow> unit prog" where
  "telegram w e st =
     (if telegram_ok w (length (trace st)) then Inr () else Inl TelegramError, emit e st)"

definition get_sol_balance :: "world \<Rightarrow> string \<Rightarrow> pyfloat prog" where
  "get_sol_balance w wallet_address st =
     (Inr (sol_balance w wallet_address), emit (Rpc_get_balance wallet_address) st)"

definition DEFAULT_WALLET_ADDRESS :: string where
  "DEFAULT_WALLET_ADDRESS = ''c54iQVThndYzaKXK8NqCRWDiRdUoni8LBkpmRoU3aPT''"

text \<open>The value of \<^verbatim>\<open>DEFAULT_PRIVATE_KEY\<close> when the environment does not set one.\<close>

definition DEFAULT_PRIVATE_KEY :: string where
  "DEFAULT_PRIVATE_KEY = ''YOUR_PRIVATE_KEY_HERE''"

definition new_user :: user where
  "new_user =
     \<lparr>wallet = DEFAULT_WALLET_ADDRESS, balance = Fin 0, private_key = DEFAULT_PRIVATE_KEY,
      awaiting_contract = None, awaiting_withdraw_x_amount = None, withdraw_x_amount = None\<rparr>"

text \<open>The entry of a user is created on first contact.\<close>

definition ensure_user :: "int \<Rightarrow> unit prog" where
  "ensure_user user_id st =
     (case users st user_id of
        None \<Rightarrow> (Inr (), st\<lparr>users := (users st)(user_id \<mapsto> new_user)\<rparr>)
      | Some u \<Rightarrow> (Inr (), st))"

text \<open>\<^verbatim>\<open>users[user_id]\<close>\<close>

definition lookup_user :: "int \<Rightarrow> user prog" where
  "lookup_user user_id st =
     (case users st user_id of None \<Rightarrow> (Inl KeyError, st) | Some u \<Rightarrow> (Inr u, st))"

text \<open>
  \<^verbatim>\<open>users[user_id][key] = value\<close>; a handler's local \<^verbatim>\<open>user\<close> is the same dictionary
  object, so an assignment through it is the same update.
\<close>

definition modify_user :: "int \<Rightarrow> (user \<Rightarrow> user) \<Rightarrow> unit prog" where
  "modify_user user_id f st =
     (case users st user_id of
        None \<Rightarrow> (Inl KeyError, st)
      | Some u \<Rightarrow> (Inr (), st\<lparr>users := (users st)(user_id \<mapsto> f u)\<rparr>))"

definition start :: "world \<Rightarrow> int \<Rightarrow> unit prog" where
  "start w user_id =
     seq (ensure_user user_id) (\<lambda>_.
     seq (lookup_user user_id) (\<lambda>u.
     seq (get_sol_balance w (wallet u)) (\<lambda>b.
     seq (modify_user user_id (\<lambda>u. u\<lparr>balance := b\<rparr>)) (\<lambda>_.
     telegram w (Reply (Welcome b (wallet u)))))))"

definition button :: "world \<Rightarrow> int \<Rightarrow> string \<Rightarrow> unit prog" where
  "button w user_id data =
     seq (telegram w Answer_callback) (\<lambda>_.
     seq (ensure_user user_id) (\<lambda>_.
     seq (lookup_user user_id) (\<lambda>u.
     if data = ''wallet'' then
       seq (get_sol_balance w (wallet u)) (\<lambda>b.
       seq (modify_user user_id (\<lambda>u. u\<lparr>balance := b\<rparr>)) (\<lambda>_.
       telegram w (Reply (Wallet_view (wallet u) b))))
     else if data = ''refresh'' then
       seq (get_sol_balance w (wallet u)) (\<lambda>b.
       seq (modify_user user_id (\<lambda>u. u\<lparr>balance := b\<rparr>)) (\<lambda>_.
       telegram w (Reply (Balance_refreshed (wallet u) b))))
     else if data = ''buy'' then
       seq (modify_user user_id (\<lambda>u. u\<lparr>awaiting_contract := Some True\<rparr>)) (\<lambda>_.
       telegram w (Reply Buy_prompt))
     else if data = ''help'' then telegram w (Reply Help_view)
     else if data = ''limit_orders'' then telegram w (Reply Limit_orders_view)
     else if data = ''add_tp_sl'' then telegram w (Edit_message Tp_sl_prompt)
     else if data = ''withdraw_all'' then telegram w (Reply Withdraw_all_prompt)
     else if data = ''withdraw_x'' then
       seq (telegram w (Reply Withdraw_x_prompt)) (\<lambda>_.
       modify_user user_id (\<lambda>u. u\<lparr>awaiting_withdraw_x_amount := Some True\<rparr>))
     else if data = ''export_seed'' then telegram w (Reply Export_warning)
     else if data = ''reveal_private_key'' then
       telegram w (Edit_message (Private_key_view (private_key u)))
     else if data = ''close_wallet'' then try_pass (telegram w Delete_message)
     else ret ())))"

fun join_space :: "string list \<Rightarrow> string" where
  "join_space [] = []"
| "join_space [x] = x"
| "join_space (x # y # ys) = x @ '' '' @ join_space (y # ys)"

definition set_private_key :: "world \<Rightarrow> int \<Rightarrow> string list \<Rightarrow> unit prog" where
  "set_private_key w user_id args =
     (if args = [] then telegram w (Reply Setkey_usage)
      else
        seq (ensure_user user_id) (\<lambda>_.
        seq (modify_user user_id (\<lambda>u. u\<lparr>private_key := join_space args\<rparr>)) (\<lambda>_.
        telegram w (Reply Setkey_done))))"

text \<open>\<^verbatim>\<open>user.get(flag)\<close> for \<^verbatim>\<open>user = users.get(user_id, {})\<close>, tested for truth.\<close>

definition flag_set :: "(user \<Rightarrow> bool option) \<Rightarrow> (int \<Rightarrow> user option) \<Rightarrow> int \<Rightarrow> bool" where
  "flag_set flag us user_id =
     (case us user_id of None \<Rightarrow> False | Some u \<Rightarrow> flag u = Some True)"

definition handle_messages :: "world \<Rightarrow> int \<Rightarrow> string \<Rightarrow> unit prog" where
  "handle_messages w user_id message_text st =
     (if flag_set awaiting_withdraw_x_amount (users st) user_id then
        seq (modify_user user_id (\<lambda>u. u\<lparr>withdraw_x_amount := Some message_text\<rparr>)) (\<lambda>_.
        seq (modify_user user_id (\<lambda>u. u\<lparr>awaiting_withdraw_x_amount := Some False\<rparr>)) (\<lambda>_.
        telegram w (Reply Destination_prompt))) st
      else if flag_set awaiting_contract (users st) user_id then
        (let contract_address = strip message_text
         in seq (modify_user user_id (\<lambda>u. u\<lparr>awaiting_contract := Some False\<rparr>)) (\<lambda>_.
            seq (telegram w (Reply Loading)) (\<lambda>_.
            seq (fetch_token_info w contract_address) (\<lambda>info.
            seq (try_pass (telegram w Delete_message)) (\<lambda>_.
            if res_error info then telegram w (Reply (Lookup_failed info contract_address))
            else telegram w (Reply (Token_view info contract_address)))))) st)
      else ret () st)"

text \<open>
  The updates the dispatcher hands to the handlers registered in \<^verbatim>\<open>main\<close>: the two
  commands, a pressed button, and a new text message that is not a command (an edited message,
  for which \<^verbatim>\<open>update.message\<close> is \<^verbatim>\<open>None\<close>, is left out). An exception a handler raises
  is logged by the dispatcher and the process goes on.
\<close>

datatype update =
    Command_start int
  | Command_setkey int "string list"
  | Callback_query int string
  | Text_message int string

definition dispatch :: "world \<Rightarrow> update \<Rightarrow> bot_state \<Rightarrow> bot_state" where
  "dispatch w u st =
     (case u of
        Command_start user_id \<Rightarrow> snd (start w user_id st)
      | Command_setkey user_id args \<Rightarrow> snd (set_private_key w user_id args st)
      | Callback_query user_id data \<Rightarrow> snd (button w user_id data st)
      | Text_message user_id message_text \<Rightarrow>
          snd (handle_messages w user_id message_text st))"

text \<open>A run of the process: each update arrives in a world of its own.\<close>

fun run :: "(world \<times> update) list \<Rightarrow> bot_state \<Rightarrow> bot_state" where
  "run [] st = st"
| "run ((w, u) # us) st = run us (dispatch w u st)"

definition initial_state :: bot_state where
  "initial_state = \<lparr>users = (\<lambda>_. None), trace = []\<rparr>"

section \<open>Notions used in the statements\<close>

text \<open>The trace entries, and the effects, that a step from \<open>st\<close> to \<open>st'\<close> added.\<close>

definition new_entries :: "bot_state \<Rightarrow> bot_state \<Rightarrow> (effect \<times> (int \<Rightarrow> user option)) list" where
  "new_entries st st' = drop (length (trace st)) (trace st')"

definition new_effects :: "bot_state \<Rightarrow> bot_state \<Rightarrow> effect list" where
  "new_effects st st' = map fst (new_entries st st')"

text \<open>What an adapter returns for an identifier in a world.\<close>

definition adapter_result :: "world \<Rightarrow> adapter \<Rightarrow> string \<Rightarrow> raw_quote option" where
  "adapter_result w ad a =
     (case ad of
        DexScreener \<Rightarrow> fst (fetch_from_dexscreener w a initial_state)
      | Birdeye \<Rightarrow> fst (fetch_from_birdeye w a initial_state)
      | Jupiter \<Rightarrow> fst (fetch_from_jupiter w a initial_state)
      | Helius \<Rightarrow> fst (fetch_from_helius_das w a initial_state))"

text \<open>The requests to the given adapters, in order, for one identifier.\<close>

definition requests :: "adapter list \<Rightarrow> string \<Rightarrow> effect list" where
  "requests ads a = map (\<lambda>ad. Http_request ad a) ads"

fun is_request :: "effect \<Rightarrow> bool" where
  "is_request (Http_request ad a) = True"
| "is_request _ = False"

text \<open>The messages that show the result of a resolution.\<close>

fun is_result_view :: "effect \<Rightarrow> bool" where
  "is_result_view (Reply (Token_view r a)) = True"
| "is_result_view (Reply (Lookup_failed r a)) = True"
| "is_result_view e = False"

text \<open>
  Every action of the user \<open>uid\<close> that raises an awaiting flag arrives while the other
  flag is not set.
\<close>

fun raised_from_idle :: "int \<Rightarrow> (world \<times> update) list \<Rightarrow> bot_state \<Rightarrow> bool" where
  "raised_from_idle uid [] st = True"
| "raised_from_idle uid ((w, u) # us) st =
     ((u = Callback_query uid ''buy'' \<longrightarrow> \<not> flag_set awaiting_withdraw_x_amount (users st) uid) \<and>
      (u = Callback_query uid ''withdraw_x'' \<longrightarrow> \<not> flag_set awaiting_contract (users st) uid) \<and>
      raised_from_idle uid us (dispatch w u st))"

definition both_flags :: "bot_state \<Rightarrow> int \<Rightarrow> bool" where
  "both_flags st uid =
     (flag_set awaiting_contract (users st) uid \<and>
      flag_set awaiting_withdraw_x_amount (users st) uid)"

text \<open>
  A price is usable when it is there and is not zero: the value is true
  (not \<^verbatim>\<open>None\<close>, not empty, not the number zero) and \<^verbatim>\<open>float\<close> does not read it as zero.
\<close>

definition is_zero_price :: "pyval \<Rightarrow> bool" where
  "is_zero_price p = (case py_float p of Inl e \<Rightarrow> False | Inr f \<Rightarrow> flt_eq f (Fin 0))"

definition usable_price :: "raw_quote option \<Rightarrow> bool" where
  "usable_price result =
     (case result of
        None \<Rightarrow> False
      | Some q \<Rightarrow> py_truthy (price q) \<and> \<not> is_zero_price (price q))"

text \<open>The call returned a result, the formatted quote, with \<^verbatim>\<open>error\<close> false.\<close>

definition returns_formatted :: "py_error + resolved \<Rightarrow> raw_quote \<Rightarrow> bool" where
  "returns_formatted res q =
     (case res of Inl e \<Rightarrow> False | Inr r \<Rightarrow> format_token_result q = Inr r \<and> \<not> res_error r)"

text \<open>
  The five outcomes of a resolution. Each returns a result: the formatted quote of the first
  adapter with a usable price, \<^verbatim>\<open>error\<close> false (for Jupiter with the name and symbol of
  Helius when Helius returns something); or, no price being usable, the result that tells the
  price is unavailable when Helius returns something, and the one that tells the token was not
  found when it does not. With each outcome go the requests made.
\<close>

datatype outcome = Primary | Secondary | Oracle | Degraded | Unresolved

fun is_outcome :: "outcome \<Rightarrow> world \<Rightarrow> string \<Rightarrow> bot_state \<Rightarrow> bool" where
  "is_outcome Primary w a0 st =
     (case adapter_result w DexScreener (strip a0) of
        None \<Rightarrow> False
      | Some q \<Rightarrow>
          usable_price (Some q) \<and>
          returns_formatted (fst (fetch_token_info w a0 st)) q \<and>
          new_effects st (snd (fetch_token_info w a0 st)) = requests [DexScreener] (strip a0))"
| "is_outcome Secondary w a0 st =
     (\<not> usable_price (adapter_result w DexScreener (strip a0)) \<and>
      (case adapter_result w Birdeye (strip a0) of
         None \<Rightarrow> False
       | Some q \<Rightarrow>
           usable_price (Some q) \<and>
           returns_formatted (fst (fetch_token_info w a0 st)) q \<and>
           new_effects st (snd (fetch_token_info w a0 st)) =
             requests [DexScreener, Birdeye] (strip a0)))"
| "is_outcome Oracle w a0 st =
     (\<not> usable_price (adapter_result w DexScreener (strip a0)) \<and>
      \<not> usable_price (adapter_result w Birdeye (strip a0)) \<and>
      (case adapter_result w Jupiter (strip a0) of
         None \<Rightarrow> False
       | Some q \<Rightarrow>
           usable_price (Some q) \<and>
           returns_formatted (fst (fetch_token_info w a0 st))
             (case adapter_result w Helius (strip a0) of
                None \<Rightarrow> q
              | Some m \<Rightarrow> q\<lparr>token_name := token_name m, token_symbol := token_symbol m\<rparr>) \<and>
           new_effects st (snd (fetch_token_info w a0 st)) =
             requests [DexScreener, Birdeye, Jupiter, Helius] (strip a0)))"
| "is_outcome Degraded w a0 st =
     (\<not> usable_price (adapter_result w DexScreener (strip a0)) \<and>
      \<not> usable_price (adapter_result w Birdeye (strip a0)) \<and>
      \<not> usable_price (adapter_result w Jupiter (strip a0)) \<and>
      (case adapter_result w Helius (strip a0) of
         None \<Rightarrow> False
       | Some m \<Rightarrow>
           fst (fetch_token_info w a0 st) = Inr (price_unavailable m) \<and>
           new_effects st (snd (fetch_token_info w a0 st)) =
             requests [DexScreener, Birdeye, Jupiter, Helius] (strip a0)))"
| "is_outcome Unresolved w a0 st =
     (\<not> usable_price (adapter_result w DexScreener (strip a0)) \<and>
      \<not> usable_price (adapter_result w Birdeye (strip a0)) \<and>
      \<not> usable_price (adapter_result w Jupiter (strip a0)) \<and>
      adapter_result w Helius (strip a0) = None \<and>
      fst (fetch_token_info w a0 st) = Inr not_found \<and>
      new_effects st (snd (fetch_token_info w a0 st)) =
        requests [DexScreener, Birdeye, Jupiter, Helius] (strip a0))"

section \<open>Example worlds\<close>

text \<open>
  A world in which every adapter gets the same answer whatever the identifier, the chat
  transport works, and every balance is zero.
\<close>

definition world_of :: "(adapter \<Rightarrow> http_outcome) \<Rightarrow> world" where
  "world_of answers =
     \<lparr>http = (\<lambda>ad a. answers ad), sort_with_nan = map snd,
      sol_balance = (\<lambda>wallet_address. Fin 0), telegram_ok = (\<lambda>n. True)\<rparr>"

definition json_ok :: "pyval \<Rightarrow> http_outcome" where
  "json_ok data = Response 200 (Some data)"

text \<open>DexScreener knows two pairs of the token, with liquidity 100 and 50000.\<close>

definition dexscreener_two_pairs :: pyval where
  "dexscreener_two_pairs =
     PDict [(''pairs'', PList
       [PDict [(''priceUsd'', PStr ''0.5''),
               (''liquidity'', PDict [(''usd'', PInt 100)]),
               (''baseToken'', PDict [(''name'', PStr ''Alpha''), (''symbol'', PStr ''AAA'')])],
        PDict [(''priceUsd'', PStr ''1234''),
               (''liquidity'', PDict [(''usd'', PInt 50000)]),
               (''fdv'', PInt 2500000),
               (''baseToken'', PDict [(''name'', PStr ''Alpha''), (''symbol'', PStr ''AAA'')])]])]"

definition jupiter_price_2 :: pyval where
  "jupiter_price_2 = PDict [(''data'', PDict [(''TOKENAAA'', PDict [(''price'', PInt 2)])])]"

definition helius_metadata :: pyval where
  "helius_metadata =
     PDict [(''result'', PDict [(''content'', PDict [(''metadata'',
        PDict [(''name'', PStr ''Alpha''), (''symbol'', PStr ''AAA'')])])])]"

definition primary_answers :: "adapter \<Rightarrow> http_outcome" where
  "primary_answers ad = (if ad = DexScreener then json_ok dexscreener_two_pairs else Request_failed)"

definition oracle_answers :: "adapter \<Rightarrow> http_outcome" where
  "oracle_answers ad = (if ad = Jupiter then json_ok jupiter_price_2 else Request_failed)"

definition registry_answers :: "adapter \<Rightarrow> http_outcome" where
  "registry_answers ad = (if ad = Helius then json_ok helius_metadata else Response 404 None)"

definition oracle_registry_answers :: "adapter \<Rightarrow> http_outcome" where
  "oracle_registry_answers ad =
     (if ad = Jupiter then json_ok jupiter_price_2
      else if ad = Helius then json_ok helius_metadata
      else Request_failed)"

definition no_answers :: "adapter \<Rightarrow> http_outcome" where
  "no_answers ad = Request_failed"

text \<open>DexScreener reports a price that is not a numeral, and a price that is zero.\<close>

definition unparseable_price_answers :: "adapter \<Rightarrow> http_outcome" where
  "unparseable_price_answers ad =
     (if ad = DexScreener
      then json_ok (PDict [(''pairs'', PList [PDict [(''priceUsd'', PStr ''abc'')]])])
      else Request_failed)"

definition zero_price_answers :: "adapter \<Rightarrow> http_outcome" where
  "zero_price_answers ad =
     (if ad = DexScreener
      then json_ok (PDict [(''pairs'', PList [PDict [(''priceUsd'', PStr ''0.0'')]])])
      else Request_failed)"

text \<open>The state after user 1, unknown so far, has pressed the buy button.\<close>

definition asked_to_buy :: bot_state where
  "asked_to_buy = dispatch (world_of primary_answers) (Callback_query 1 ''buy'') initial_state"

text \<open>Two runs of user 1: buy, an identifier, withdraw, an amount; and buy, then withdraw.\<close>

definition one_at_a_time :: "(world \<times> update) list" where
  "one_at_a_time =
     [(world_of primary_answers, Callback_query 1 ''buy''),
      (world_of primary_answers, Text_message 1 '' TOKENAAA ''),
      (world_of primary_answers, Callback_query 1 ''withdraw_x''),
      (world_of primary_answers, Text_message 1 ''5'')]"

definition buy_then_withdraw :: "(world \<times> update) list" where
  "buy_then_withdraw =
     [(world_of primary_answers, Callback_query 1 ''buy''),
      (world_of primary_answers, Callback_query 1 ''withdraw_x'')]"

section \<open>The numeric formatter: proofs\<close>

lemma lit_0_01_val: "lit_0_01 = Fin (5764607523034235 / 576460752303423488)"
  unfolding lit_0_01_def by code_simp

lemma lit_0_000001_val: "lit_0_000001 = Fin (4722366482869645 / 4722366482869645213696)"
  unfolding lit_0_000001_def by code_simp

lemma round_half_even_small:
  assumes "0 \<le> x" and "x \<le> 1 / 2"
  shows "round_half_even x = 0"
proof -
  from assms have f: "\<lfloor>x\<rfloor> = 0"
    by (simp add: floor_eq_iff)
  show ?thesis
    unfolding round_half_even_def Let_def f using assms by simp
qed

lemma dec_0: "dec 0 = ''0''"
  by code_simp

lemma fmt_fixed_10_tiny:
  assumes "0 < r" and "r \<le> 5 / 10 ^ 11"
  shows "fmt_fixed 10 (Fin r) = ''0.0000000000''"
proof -
  have "r * 10000000000 \<le> 1 / 2"
    using assms by simp
  moreover have "0 \<le> r * 10000000000"
    using assms by simp
  ultimately have k: "round_half_even (r * 10000000000) = 0"
    by (rule round_half_even_small[rotated])
  show ?thesis
    unfolding fmt_fixed_def using assms(1)
    by (simp add: k dec_0 zero_pad_def Let_def eval_nat_numeral)
qed

lemma strip_zero_render: "rstrip ''.'' (rstrip ''0'' ''$0.0000000000'') = ''$0''"
  by (simp add: rstrip_def)

lemma rstrip_keeps_head:
  assumes "c \<notin> set cs"
  shows "\<exists>t. rstrip cs (c # s) = c # t"
proof -
  have "dropWhile (\<lambda>x. x \<in> set cs) (rev s @ [c]) = dropWhile (\<lambda>x. x \<in> set cs) (rev s) @ [c]"
    using assms by (simp add: dropWhile_append3 dropWhile_append)
  then show ?thesis
    by (simp add: rstrip_def)
qed

lemma format_number_dollar:
  assumes f: "py_float v = Inr f"
  shows "\<exists>t. format_number v = CHR ''$'' # t"
proof -
  have strip: "\<exists>t. rstrip ''.'' (rstrip ''0'' (''$'' @ s)) = CHR ''$'' # t" for s
  proof -
    obtain t where t: "rstrip ''0'' (CHR ''$'' # s) = CHR ''$'' # t"
      using rstrip_keeps_head[of "CHR ''$''" "''0''" s] by auto
    obtain t' where "rstrip ''.'' (CHR ''$'' # t) = CHR ''$'' # t'"
      using rstrip_keeps_head[of "CHR ''$''" "''.''" t] by auto
    with t show ?thesis by simp
  qed
  show ?thesis
    using strip[of "fmt_fixed 10 f"] strip[of "fmt_fixed 8 f"]
    by (simp add: format_number_def f)
qed

lemma format_number_1234: "format_number (PInt 1234) = ''$1.23K''"
  by code_simp

lemma format_number_2500000: "format_number (PInt 2500000) = ''$2.50M''"
  by code_simp

lemma format_number_minus_5: "format_number (PInt (- 5)) = ''$-5''"
  by code_simp

lemma fmt_fixed_4_minus_5: "fmt_fixed 4 (Fin (- 5)) = ''-5.0000''"
  by code_simp

text \<open>
  C5, as the code has it: an input that \<^verbatim>\<open>float\<close> rejects gives \<open>N/A\<close>; zero gives \<open>$0\<close>; a
  value other than zero below the literal \<^verbatim>\<open>0.000001\<close>, negative values included, is
  rendered with 10 fractional digits and then stripped of trailing zeros and of a trailing
  point; from there up to the literal \<^verbatim>\<open>0.01\<close>, the same with 8 digits; from 1000000 on,
  divided by 1000000 with 2 digits and the suffix \<open>M\<close>; from 1000 on, divided by 1000 with 2
  digits and the suffix \<open>K\<close>; any other value has 4 digits and no suffix. Every output for
  an input that \<^verbatim>\<open>float\<close> accepts starts with \<open>$\<close>, and 0, 1234 and 2500000 give \<open>$0\<close>,
  \<open>$1.23K\<close> and \<open>$2.50M\<close>.
\<close>

theorem format_number_cases:
  "(py_float x = Inl e \<longrightarrow> format_number x = ''N/A'') \<and>
   (py_float x = Inr v \<and> flt_eq v (Fin 0) \<longrightarrow> format_number x = ''$0'') \<and>
   (py_float x = Inr v \<and> \<not> flt_eq v (Fin 0) \<and> flt_lt v lit_0_000001 \<longrightarrow>
      format_number x = rstrip ''.'' (rstrip ''0'' (''$'' @ fmt_fixed 10 v))) \<and>
   (py_float x = Inr v \<and> \<not> flt_lt v lit_0_000001 \<and> flt_lt v lit_0_01 \<longrightarrow>
      format_number x = rstrip ''.'' (rstrip ''0'' (''$'' @ fmt_fixed 8 v))) \<and>
   (py_float x = Inr v \<and> flt_ge v (Fin 1000000) \<longrightarrow>
      format_number x = ''$'' @ fmt_fixed 2 (flt_div v 1000000) @ ''M'') \<and>
   (py_float x = Inr v \<and> flt_ge v (Fin 1000) \<and> \<not> flt_ge v (Fin 1000000) \<longrightarrow>
      format_number x = ''$'' @ fmt_fixed 2 (flt_div v 1000) @ ''K'') \<and>
   (py_float x = Inr v \<and> \<not> flt_lt v lit_0_01 \<and> \<not> flt_ge v (Fin 1000) \<longrightarrow>
      format_number x = ''$'' @ fmt_fixed 4 v) \<and>
   (py_float x = Inr v \<longrightarrow> (\<exists>t. format_number x = CHR ''$'' # t)) \<and>
   format_number (PInt 0) = ''$0'' \<and>
   format_number (PInt 1234) = ''$1.23K'' \<and>
   format_number (PInt 2500000) = ''$2.50M''"
proof -
  have zero: "flt_eq v (Fin 0) \<Longrightarrow> v = Fin 0"
    by (cases v) simp_all
  have small: "flt_lt v lit_0_000001 \<Longrightarrow> flt_lt v lit_0_01"
    by (cases v) (simp_all add: lit_0_01_val lit_0_000001_val)
  have large: "flt_ge v (Fin 1000) \<Longrightarrow> \<not> flt_lt v lit_0_01 \<and> \<not> flt_eq v (Fin 0)"
    by (cases v) (auto simp: lit_0_01_val flt_ge_def)
  have larger: "flt_ge v (Fin 1000000) \<Longrightarrow> flt_ge v (Fin 1000)"
    by (cases v) (auto simp: flt_ge_def)
  have other: "\<not> flt_lt v lit_0_01 \<Longrightarrow> \<not> flt_eq v (Fin 0)"
    by (cases v) (auto simp: lit_0_01_val)
  have tiny: "\<not> flt_lt v lit_0_000001 \<Longrightarrow> \<not> flt_eq v (Fin 0)"
    by (cases v) (auto simp: lit_0_000001_val)
  have "format_number (PInt 0) = ''$0''"
    by (simp add: format_number_def py_float_def round_to_double_def)
  with zero small large larger other tiny format_number_dollar[of x v]
    format_number_1234 format_number_2500000
  show ?thesis
    by (auto simp: format_number_def)
qed

lemma py_float_PFloat: "py_float (PFloat f) = Inr f"
  by (simp add: py_float_def)

lemma float_of_words: "py_float (PStr ''not a number'') = Inl ValueError"
  by code_simp

lemma render_small: "rstrip ''.'' (rstrip ''0'' (''$'' @ fmt_fixed 10 (Fin (1 / 2097152)))) = ''$0.0000004768''"
  by code_simp

lemma render_negative: "rstrip ''.'' (rstrip ''0'' (''$'' @ fmt_fixed 10 (Fin (- 5)))) = ''$-5''"
  by code_simp

lemma render_medium: "rstrip ''.'' (rstrip ''0'' (''$'' @ fmt_fixed 8 (Fin (1 / 1024)))) = ''$0.00097656''"
  by code_simp

lemma render_millions: "''$'' @ fmt_fixed 2 (flt_div (Fin 2500000) 1000000) @ ''M'' = ''$2.50M''"
  by code_simp

lemma render_thousands: "''$'' @ fmt_fixed 2 (flt_div (Fin 1234) 1000) @ ''K'' = ''$1.23K''"
  by code_simp

lemma render_plain: "''$'' @ fmt_fixed 4 (Fin (1 / 2)) = ''$0.5000''"
  by code_simp

text \<open>One input for each case of \<open>format_number_cases\<close>.\<close>

theorem format_number_cases_witness:
  "py_float (PStr ''not a number'') = Inl ValueError \<and>
   format_number (PStr ''not a number'') = ''N/A'' \<and>
   format_number (PFloat (Fin 0)) = ''$0'' \<and>
   flt_lt (Fin (1 / 2097152)) lit_0_000001 \<and>
   format_number (PFloat (Fin (1 / 2097152))) = ''$0.0000004768'' \<and>
   flt_lt (Fin (- 5)) lit_0_000001 \<and>
   format_number (PFloat (Fin (- 5))) = ''$-5'' \<and>
   \<not> flt_lt (Fin (1 / 1024)) lit_0_000001 \<and> flt_lt (Fin (1 / 1024)) lit_0_01 \<and>
   format_number (PFloat (Fin (1 / 1024))) = ''$0.00097656'' \<and>
   flt_ge (Fin 2500000) (Fin 1000000) \<and>
   format_number (PFloat (Fin 2500000)) = ''$2.50M'' \<and>
   flt_ge (Fin 1234) (Fin 1000) \<and> \<not> flt_ge (Fin 1234) (Fin 1000000) \<and>
   format_number (PFloat (Fin 1234)) = ''$1.23K'' \<and>
   \<not> flt_lt (Fin (1 / 2)) lit_0_01 \<and> \<not> flt_ge (Fin (1 / 2)) (Fin 1000) \<and>
   format_number (PFloat (Fin (1 / 2))) = ''$0.5000''"
  using format_number_cases[of "PStr ''not a number''" ValueError NaN]
    format_number_cases[of "PFloat (Fin 0)" ValueError "Fin 0"]
    format_number_cases[of "PFloat (Fin (1 / 2097152))" ValueError "Fin (1 / 2097152)"]
    format_number_cases[of "PFloat (Fin (- 5))" ValueError "Fin (- 5)"]
    format_number_cases[of "PFloat (Fin (1 / 1024))" ValueError "Fin (1 / 1024)"]
    format_number_cases[of "PFloat (Fin 2500000)" ValueError "Fin 2500000"]
    format_number_cases[of "PFloat (Fin 1234)" ValueError "Fin 1234"]
    format_number_cases[of "PFloat (Fin (1 / 2))" ValueError "Fin (1 / 2)"]
  by (simp add: float_of_words py_float_PFloat lit_0_01_val lit_0_000001_val flt_ge_def
        render_small[simplified] render_negative[simplified] render_medium[simplified]
        render_millions[simplified] render_thousands[simplified] render_plain[simplified])

text \<open>
  C5 as stated fails on negative values: they are below \<^verbatim>\<open>0.01\<close> and \<^verbatim>\<open>0.000001\<close>, so \<open>-5\<close>
  is rendered with 10 digits and stripped, not with 4 fractional digits.
\<close>

theorem format_number_negative_counterexample:
  "format_number (PInt (- 5)) = ''$-5'' \<and>
   format_number (PInt (- 5)) \<noteq> ''$'' @ fmt_fixed 4 (Fin (- 5))"
  by (simp add: format_number_minus_5 fmt_fixed_4_minus_5)

text \<open>
  C10, as the code has it: every input whose float has an exact value above 0 and at most
  \<open>5 / 10 ^ 11\<close> is shown as \<open>$0\<close>, the string shown for zero. (No double has the exact
  value \<open>5 / 10 ^ 11\<close>; the double that the literal \<^verbatim>\<open>5e-11\<close> denotes is above it.)
\<close>

theorem format_number_tiny_is_zero_sentinel:
  assumes "py_float x = Inr (Fin r)" and "0 < r" and "r \<le> 5 / 10 ^ 11"
  shows "format_number x = ''$0'' \<and> format_number x = format_number (PInt 0)"
proof -
  have "flt_lt (Fin r) lit_0_01" "flt_lt (Fin r) lit_0_000001" "\<not> flt_eq (Fin r) (Fin 0)"
    using assms(2,3) by (simp_all add: lit_0_01_val lit_0_000001_val)
  then have "format_number x = ''$0''"
    unfolding format_number_def
    by (simp add: assms(1) fmt_fixed_10_tiny[OF assms(2,3)] strip_zero_render)
  moreover have "format_number (PInt 0) = ''$0''"
    by (simp add: format_number_def py_float_def round_to_double_def)
  ultimately show ?thesis
    by simp
qed

theorem format_number_tiny_is_zero_sentinel_witness:
  "py_float (PFloat (Fin (1 / 2 ^ 35))) = Inr (Fin (1 / 2 ^ 35)) \<and>
   (0 :: rat) < 1 / 2 ^ 35 \<and> (1 :: rat) / 2 ^ 35 \<le> 5 / 10 ^ 11 \<and>
   format_number (PFloat (Fin (1 / 2 ^ 35))) = ''$0''"
  using format_number_tiny_is_zero_sentinel[of "PFloat (Fin (1 / 2 ^ 35))" "1 / 2 ^ 35"]
  by (simp add: py_float_PFloat)

lemma float_5e_11: "py_float (PStr ''5e-11'') = Inr (round_to_double (5 / 10 ^ 11))"
  by code_simp

lemma double_5e_11: "round_to_double (5 / 10 ^ 11) = Fin (7737125245533627 / 154742504910672534362390528)"
  by code_simp

lemma format_number_5e_11: "format_number (PStr ''5e-11'') = ''$0.0000000001''"
  by code_simp

text \<open>
  C10 as stated fails at its bound: the float \<^verbatim>\<open>5e-11\<close> is positive, it is not above
  \<^verbatim>\<open>5e-11\<close>, and it is shown as \<open>$0.0000000001\<close>.
\<close>

theorem format_number_5e_11_counterexample:
  "py_float (PStr ''5e-11'') = Inr (round_to_double (5 / 10 ^ 11)) \<and>
   flt_lt (Fin 0) (round_to_double (5 / 10 ^ 11)) \<and>
   \<not> flt_lt (round_to_double (5 / 10 ^ 11)) (round_to_double (5 / 10 ^ 11)) \<and>
   format_number (PStr ''5e-11'') = ''$0.0000000001'' \<and>
   format_number (PStr ''5e-11'') \<noteq> ''$0''"
  by (simp add: float_5e_11[simplified] double_5e_11[simplified] format_number_5e_11)


section \<open>The resolution pipeline: proofs\<close>

lemma users_emit: "users (emit e st) = users st"
  by (simp add: emit_def)

lemma trace_emit: "trace (emit e st) = trace st @ [(e, users st)]"
  by (simp add: emit_def)

lemma fetch_from_dexscreener_eq:
  "fetch_from_dexscreener w a st =
     (adapter_result w DexScreener a, emit (Http_request DexScreener a) st)"
  by (simp add: fetch_from_dexscreener_def adapter_result_def)

lemma fetch_from_birdeye_eq:
  "fetch_from_birdeye w a st = (adapter_result w Birdeye a, emit (Http_request Birdeye a) st)"
  by (simp add: fetch_from_birdeye_def adapter_result_def)

lemma fetch_from_jupiter_eq:
  "fetch_from_jupiter w a st = (adapter_result w Jupiter a, emit (Http_request Jupiter a) st)"
  by (simp add: fetch_from_jupiter_def adapter_result_def)

lemma fetch_from_helius_das_eq:
  "fetch_from_helius_das w a st = (adapter_result w Helius a, emit (Http_request Helius a) st)"
  by (simp add: fetch_from_helius_das_def adapter_result_def)

lemmas fetch_from_eqs =
  fetch_from_dexscreener_eq fetch_from_birdeye_eq fetch_from_jupiter_eq fetch_from_helius_das_eq

lemma new_effects_emit1: "new_effects st (emit e1 st) = [e1]"
  by (simp add: new_effects_def new_entries_def trace_emit)

lemma new_effects_emit2: "new_effects st (emit e2 (emit e1 st)) = [e1, e2]"
  by (simp add: new_effects_def new_entries_def trace_emit users_emit)

lemma new_effects_emit4:
  "new_effects st (emit e4 (emit e3 (emit e2 (emit e1 st)))) = [e1, e2, e3, e4]"
  by (simp add: new_effects_def new_entries_def trace_emit users_emit)

lemmas new_effects_emits = new_effects_emit1 new_effects_emit2 new_effects_emit4

text \<open>The pipeline with the state threading resolved.\<close>

lemma fetch_token_info_eq:
  "fetch_token_info w a0 st =
     (let a = strip a0 in
      case with_price (adapter_result w DexScreener a) of
        Some q \<Rightarrow> (format_token_result q, emit (Http_request DexScreener a) st)
      | None \<Rightarrow>
         (case with_price (adapter_result w Birdeye a) of
            Some q \<Rightarrow>
              (format_token_result q,
               emit (Http_request Birdeye a) (emit (Http_request DexScreener a) st))
          | None \<Rightarrow>
             (let st4 = emit (Http_request Helius a) (emit (Http_request Jupiter a)
                          (emit (Http_request Birdeye a) (emit (Http_request DexScreener a) st)))
              in case with_price (adapter_result w Jupiter a) of
                   Some q \<Rightarrow>
                     (case adapter_result w Helius a of
                        Some m \<Rightarrow>
                          (format_token_result
                             (q\<lparr>token_name := token_name m, token_symbol := token_symbol m\<rparr>),
                           st4)
                      | None \<Rightarrow> (format_token_result q, st4))
                 | None \<Rightarrow>
                     (case adapter_result w Helius a of
                        Some m \<Rightarrow> (Inr (price_unavailable m), st4)
                      | None \<Rightarrow> (Inr not_found, st4)))))"
  by (simp add: fetch_token_info_def fetch_from_eqs Let_def split: option.splits)

lemma new_effects_fetch_token_info:
  "new_effects st (snd (fetch_token_info w a0 st)) \<in>
     {requests [DexScreener] (strip a0), requests [DexScreener, Birdeye] (strip a0),
      requests [DexScreener, Birdeye, Jupiter, Helius] (strip a0)}"
  by (simp add: fetch_token_info_eq Let_def requests_def new_effects_emits split: option.splits)

lemma users_fetch_token_info: "users (snd (fetch_token_info w a0 st)) = users st"
  by (simp add: fetch_token_info_eq Let_def users_emit split: option.splits)

lemma format_token_result_Inr:
  assumes "format_token_result q = Inr r"
  shows "\<not> res_error r" and "res_price r = format_number (price q)"
    and "res_token_name r = token_name q" and "res_token_symbol r = token_symbol q"
    and "py_truthy (price q) \<Longrightarrow> \<exists>f. py_float (price q) = Inr f"
  using assms
  by (auto simp: format_token_result_def bnd_def split: sum.splits if_splits)

lemma with_price_Some: "with_price x = Some q \<Longrightarrow> x = Some q \<and> py_truthy (price q)"
  by (auto simp: with_price_def split: option.splits if_splits)

lemma helius_no_price: "with_price (adapter_result w Helius a) = None"
  by (auto simp: adapter_result_def fetch_from_helius_das_def helius_das_try_def except_none_def
        bnd_def json_body_def with_price_def
      split: http_outcome.splits option.splits sum.splits if_splits)

lemma jupiter_placeholders:
  "adapter_result w Jupiter a = Some q \<Longrightarrow>
     token_name q = PStr ''Unknown'' \<and> token_symbol q = PStr ''???'' \<and> source q = ''Jupiter''"
  by (auto simp: adapter_result_def fetch_from_jupiter_def jupiter_try_def except_none_def
        bnd_def json_body_def
      split: http_outcome.splits option.splits sum.splits if_splits)

subsection \<open>The example worlds, evaluated\<close>

lemma strip_example: "strip '' TOKENAAA '' = ''TOKENAAA''"
  by code_simp

lemma strip_plain: "strip ''TOKENAAA'' = ''TOKENAAA''"
  by code_simp

lemma primary_dexscreener:
  "adapter_result (world_of primary_answers) DexScreener ''TOKENAAA'' =
     Some \<lparr>price = PStr ''1234'', liquidity = PInt 50000, market_cap = PInt 2500000,
           token_name = PStr ''Alpha'', token_symbol = PStr ''AAA'', source = ''DexScreener''\<rparr>"
  by code_simp

lemma primary_resolved:
  "fst (fetch_token_info (world_of primary_answers) '' TOKENAAA '' initial_state) =
     Inr \<lparr>res_price = ''$1.23K'', res_price_raw = Some (PFloat (Fin 1234)),
          res_liquidity = ''$50.00K'', res_market_cap = ''$2.50M'',
          res_token_name = PStr ''Alpha'', res_token_symbol = PStr ''AAA'',
          res_source = ''DexScreener'', res_error = False, res_error_msg = None\<rparr>"
  by code_simp

lemma no_answers_results:
  "adapter_result (world_of no_answers) DexScreener ''TOKENAAA'' = None"
  "adapter_result (world_of no_answers) Birdeye ''TOKENAAA'' = None"
  "adapter_result (world_of no_answers) Jupiter ''TOKENAAA'' = None"
  "adapter_result (world_of no_answers) Helius ''TOKENAAA'' = None"
  by code_simp+

lemma registry_results:
  "adapter_result (world_of registry_answers) DexScreener ''TOKENAAA'' = None"
  "adapter_result (world_of registry_answers) Birdeye ''TOKENAAA'' = None"
  "adapter_result (world_of registry_answers) Jupiter ''TOKENAAA'' = None"
  "adapter_result (world_of registry_answers) Helius ''TOKENAAA'' =
     Some \<lparr>price = PNone, liquidity = PInt 0, market_cap = PInt 0, token_name = PStr ''Alpha'',
           token_symbol = PStr ''AAA'', source = ''Helius''\<rparr>"
  by code_simp+

lemma oracle_results:
  "adapter_result (world_of oracle_answers) DexScreener ''TOKENAAA'' = None"
  "adapter_result (world_of oracle_answers) Birdeye ''TOKENAAA'' = None"
  "adapter_result (world_of oracle_answers) Jupiter ''TOKENAAA'' =
     Some \<lparr>price = PStr ''2'', liquidity = PInt 0, market_cap = PInt 0,
           token_name = PStr ''Unknown'', token_symbol = PStr ''???'', source = ''Jupiter''\<rparr>"
  "adapter_result (world_of oracle_answers) Helius ''TOKENAAA'' = None"
  by code_simp+

lemma oracle_registry_results:
  "adapter_result (world_of oracle_registry_answers) DexScreener ''TOKENAAA'' = None"
  "adapter_result (world_of oracle_registry_answers) Birdeye ''TOKENAAA'' = None"
  "adapter_result (world_of oracle_registry_answers) Jupiter ''TOKENAAA'' =
     Some \<lparr>price = PStr ''2'', liquidity = PInt 0, market_cap = PInt 0,
           token_name = PStr ''Unknown'', token_symbol = PStr ''???'', source = ''Jupiter''\<rparr>"
  "adapter_result (world_of oracle_registry_answers) Helius ''TOKENAAA'' =
     Some \<lparr>price = PNone, liquidity = PInt 0, market_cap = PInt 0, token_name = PStr ''Alpha'',
           token_symbol = PStr ''AAA'', source = ''Helius''\<rparr>"
  by code_simp+

lemma format_oracle_quote:
  "format_token_result
     \<lparr>price = PStr ''2'', liquidity = PInt 0, market_cap = PInt 0,
      token_name = n, token_symbol = s, source = ''Jupiter''\<rparr> =
   Inr \<lparr>res_price = ''$2.0000'', res_price_raw = Some (PFloat (Fin 2)), res_liquidity = ''$0'',
        res_market_cap = ''$0'', res_token_name = n, res_token_symbol = s,
        res_source = ''Jupiter'', res_error = False, res_error_msg = None\<rparr>"
proof -
  have "py_float (PStr ''2'') = Inr (Fin 2)" "format_number (PStr ''2'') = ''$2.0000''"
    "format_number (PInt 0) = ''$0''"
    by code_simp+
  then show ?thesis
    by (simp add: format_token_result_def bnd_def)
qed

subsection \<open>Order and short circuit\<close>

text \<open>
  Whatever the adapters answer, the requests of a resolution are those to DexScreener, or to
  DexScreener and Birdeye, or to DexScreener, Birdeye, Jupiter and Helius, in this order and
  for the stripped identifier; and when DexScreener returns a quote with a price, the only
  request is the one to DexScreener.
\<close>

lemma fetch_token_info_short_circuit:
  "with_price (adapter_result w DexScreener (strip a0)) \<noteq> None \<Longrightarrow>
     new_effects st (snd (fetch_token_info w a0 st)) = requests [DexScreener] (strip a0)"
  by (auto simp: fetch_token_info_eq Let_def requests_def new_effects_emit1)

text \<open>No two of the five outcomes hold of one resolution.\<close>

lemma is_outcome_unique: "is_outcome o1 w a0 st \<Longrightarrow> is_outcome o2 w a0 st \<Longrightarrow> o1 = o2"
  by (cases o1; cases o2) (auto split: option.splits)

text \<open>
  A result is returned when \<^verbatim>\<open>float\<close> accepts the price of every quote with a price that
  an adapter returns.
\<close>

lemma format_token_result_returns:
  "py_float (price q) = Inr f \<Longrightarrow> \<exists>r. format_token_result q = Inr r"
  by (simp add: format_token_result_def bnd_def)

lemma fetch_token_info_returns:
  assumes ok: "\<forall>ad q. with_price (adapter_result w ad (strip a0)) = Some q \<longrightarrow>
      (\<exists>f. py_float (price q) = Inr f)"
  shows "\<exists>r. fst (fetch_token_info w a0 st) = Inr r"
proof -
  have ret: "\<exists>r. format_token_result q' = Inr r"
    if "with_price (adapter_result w ad (strip a0)) = Some q" "price q' = price q" for ad q q'
    using ok that format_token_result_returns[of q'] by fastforce
  show ?thesis
    using ret[of DexScreener] ret[of Birdeye] ret[of Jupiter]
    by (auto simp: fetch_token_info_eq Let_def split: option.splits)
qed

subsection \<open>The flag of the result\<close>

text \<open>
  A result that is returned has \<^verbatim>\<open>error\<close> true exactly when no adapter returned a quote
  that passes the test of the pipeline, \<^verbatim>\<open>result and result.get("price")\<close>; and when
  \<^verbatim>\<open>error\<close> is false the price shown is not \<open>Price Unavailable\<close>: it starts with \<open>$\<close>.
\<close>

lemma error_flag_follows_price_test:
  assumes "fst (fetch_token_info w a0 st) = Inr r"
  shows "(res_error r \<longleftrightarrow> (\<forall>ad. with_price (adapter_result w ad (strip a0)) = None)) \<and>
         (\<not> res_error r \<longrightarrow>
            res_price r \<noteq> ''Price Unavailable'' \<and> (\<exists>t. res_price r = CHR ''$'' # t))"
proof -
  have ok: "\<not> res_error r \<and> (\<exists>t. res_price r = CHR ''$'' # t)"
    if "format_token_result q = Inr r" "py_truthy (price q)" for q
    using format_token_result_Inr[OF that(1)] that(2) format_number_dollar[of "price q"] by auto
  have none: "\<forall>ad. with_price (adapter_result w ad (strip a0)) = None"
    if "with_price (adapter_result w DexScreener (strip a0)) = None"
       "with_price (adapter_result w Birdeye (strip a0)) = None"
       "with_price (adapter_result w Jupiter (strip a0)) = None"
  proof
    fix ad show "with_price (adapter_result w ad (strip a0)) = None"
      using that helius_no_price[of w "strip a0"] by (cases ad) simp_all
  qed
  have some: "\<not> (\<forall>ad. with_price (adapter_result w ad (strip a0)) = None)"
    if "with_price (adapter_result w ad' (strip a0)) = Some q" for ad' q
    using that by (metis option.distinct(1))
  show ?thesis
  proof (cases "with_price (adapter_result w DexScreener (strip a0))")
    case (Some q)
    with assms have "format_token_result q = Inr r"
      by (simp add: fetch_token_info_eq Let_def)
    from ok[OF this] with_price_Some[OF Some] some[OF Some] show ?thesis by auto
  next
    case d: None
    show ?thesis
    proof (cases "with_price (adapter_result w Birdeye (strip a0))")
      case (Some q)
      with assms d have "format_token_result q = Inr r"
        by (simp add: fetch_token_info_eq Let_def)
      from ok[OF this] with_price_Some[OF Some] some[OF Some] show ?thesis by auto
    next
      case b: None
      show ?thesis
      proof (cases "with_price (adapter_result w Jupiter (strip a0))")
        case (Some q)
        with assms d b obtain q' where q': "format_token_result q' = Inr r" "price q' = price q"
          by (auto simp: fetch_token_info_eq Let_def split: option.splits)
        from ok[OF q'(1)] with_price_Some[OF Some] q'(2) some[OF Some] show ?thesis by auto
      next
        case j: None
        from assms d b j have "r = not_found \<or> (\<exists>m. r = price_unavailable m)"
          by (auto simp: fetch_token_info_eq Let_def split: option.splits)
        with none[OF d b j] show ?thesis
          by (auto simp: not_found_def price_unavailable_def)
      qed
    qed
  qed
qed

subsection \<open>The two failures\<close>

text \<open>
  C3: when no adapter returns a quote with a price and Helius returns nothing either, the
  result has \<^verbatim>\<open>error\<close> true and \<open>Not Found\<close> for price, liquidity and market cap, none of
  which is an unavailable sentinel; when Helius alone returns something, the result has
  \<^verbatim>\<open>error\<close> true, \<open>Price Unavailable\<close> and \<open>Data Unavailable\<close> in these fields, none of which is
  \<open>Not Found\<close>, the name, symbol and source Helius gave, and the message that the token was
  found but has no price data.
\<close>

theorem failure_sentinels:
  assumes "with_price (adapter_result w DexScreener (strip a0)) = None"
    and "with_price (adapter_result w Birdeye (strip a0)) = None"
    and "with_price (adapter_result w Jupiter (strip a0)) = None"
  shows "(adapter_result w Helius (strip a0) = None \<longrightarrow>
           (\<exists>r. fst (fetch_token_info w a0 st) = Inr r \<and> res_error r \<and>
                res_price r = ''Not Found'' \<and> res_liquidity r = ''Not Found'' \<and>
                res_market_cap r = ''Not Found'' \<and>
                res_price r \<noteq> ''Price Unavailable'' \<and>
                res_liquidity r \<noteq> ''Data Unavailable'' \<and>
                res_market_cap r \<noteq> ''Data Unavailable'')) \<and>
         (\<forall>m. adapter_result w Helius (strip a0) = Some m \<longrightarrow>
           (\<exists>r. fst (fetch_token_info w a0 st) = Inr r \<and> res_error r \<and>
                res_price r = ''Price Unavailable'' \<and> res_liquidity r = ''Data Unavailable'' \<and>
                res_market_cap r = ''Data Unavailable'' \<and>
                res_price r \<noteq> ''Not Found'' \<and> res_liquidity r \<noteq> ''Not Found'' \<and>
                res_market_cap r \<noteq> ''Not Found'' \<and>
                res_token_name r = token_name m \<and> res_token_symbol r = token_symbol m \<and>
                res_source r = source m \<and>
                res_error_msg r = Some
                  ''Token found but no price data available. It may not be listed on any DEX yet.''))"
  using assms
  by (simp add: fetch_token_info_eq Let_def not_found_def price_unavailable_def)

theorem failure_sentinels_witness:
  "res_price (projr (fst (fetch_token_info (world_of no_answers) ''TOKENAAA'' initial_state))) =
     ''Not Found'' \<and>
   res_price (projr (fst (fetch_token_info (world_of registry_answers) ''TOKENAAA'' initial_state))) =
     ''Price Unavailable'' \<and>
   res_token_symbol
     (projr (fst (fetch_token_info (world_of registry_answers) ''TOKENAAA'' initial_state))) =
     PStr ''AAA''"
  using failure_sentinels[of "world_of no_answers" "''TOKENAAA''" initial_state]
    failure_sentinels[of "world_of registry_answers" "''TOKENAAA''" initial_state]
  by (auto simp: strip_plain no_answers_results registry_results with_price_def)

subsection \<open>Enrichment of the oracle's quote\<close>

text \<open>
  C4: when neither DexScreener nor Birdeye returns a quote with a price and Jupiter does, the
  requests are those to the four adapters in order, the one to Helius made once; the result
  is the formatted quote of Jupiter, with the name and symbol of Helius when Helius returns
  something and with the placeholders \<open>Unknown\<close> and \<open>???\<close> of Jupiter when it does not; and a
  result that is returned has \<^verbatim>\<open>error\<close> false either way.
\<close>

theorem oracle_enrichment:
  assumes "with_price (adapter_result w DexScreener (strip a0)) = None"
    and "with_price (adapter_result w Birdeye (strip a0)) = None"
    and "with_price (adapter_result w Jupiter (strip a0)) = Some q"
  shows "new_effects st (snd (fetch_token_info w a0 st)) =
           requests [DexScreener, Birdeye, Jupiter, Helius] (strip a0) \<and>
         length (filter (\<lambda>e. e = Http_request Helius (strip a0))
           (new_effects st (snd (fetch_token_info w a0 st)))) = 1 \<and>
         token_name q = PStr ''Unknown'' \<and> token_symbol q = PStr ''???'' \<and>
         (adapter_result w Helius (strip a0) = None \<longrightarrow>
            fst (fetch_token_info w a0 st) = format_token_result q) \<and>
         (\<forall>m. adapter_result w Helius (strip a0) = Some m \<longrightarrow>
            fst (fetch_token_info w a0 st) =
              format_token_result
                (q\<lparr>token_name := token_name m, token_symbol := token_symbol m\<rparr>)) \<and>
         (\<forall>r. fst (fetch_token_info w a0 st) = Inr r \<longrightarrow>
            \<not> res_error r \<and>
            (adapter_result w Helius (strip a0) = None \<longrightarrow>
               res_token_name r = PStr ''Unknown'' \<and> res_token_symbol r = PStr ''???''))"
proof -
  have q: "adapter_result w Jupiter (strip a0) = Some q"
    using with_price_Some[OF assms(3)] by simp
  note ph = jupiter_placeholders[OF q]
  have eff: "new_effects st (snd (fetch_token_info w a0 st)) =
      requests [DexScreener, Birdeye, Jupiter, Helius] (strip a0)"
    using assms
    by (simp add: fetch_token_info_eq Let_def requests_def new_effects_emit4 split: option.splits)
  have res: "fst (fetch_token_info w a0 st) =
      (case adapter_result w Helius (strip a0) of
         None \<Rightarrow> format_token_result q
       | Some m \<Rightarrow> format_token_result (q\<lparr>token_name := token_name m, token_symbol := token_symbol m\<rparr>))"
    using assms by (simp add: fetch_token_info_eq Let_def split: option.splits)
  have flag: "\<not> res_error r \<and>
      (adapter_result w Helius (strip a0) = None \<longrightarrow>
         res_token_name r = PStr ''Unknown'' \<and> res_token_symbol r = PStr ''???'')"
    if "fst (fetch_token_info w a0 st) = Inr r" for r
  proof (cases "adapter_result w Helius (strip a0)")
    case None
    with res that have "format_token_result q = Inr r" by simp
    from format_token_result_Inr(1,3,4)[OF this] ph None show ?thesis by simp
  next
    case (Some m)
    with res that
    have "format_token_result (q\<lparr>token_name := token_name m, token_symbol := token_symbol m\<rparr>) = Inr r"
      by simp
    from format_token_result_Inr(1)[OF this] Some show ?thesis by simp
  qed
  have once: "length (filter (\<lambda>e. e = Http_request Helius (strip a0))
      (requests [DexScreener, Birdeye, Jupiter, Helius] (strip a0))) = 1"
    by (simp add: requests_def)
  have none: "adapter_result w Helius (strip a0) = None \<longrightarrow>
      fst (fetch_token_info w a0 st) = format_token_result q"
    using res by simp
  have some: "\<forall>m. adapter_result w Helius (strip a0) = Some m \<longrightarrow>
      fst (fetch_token_info w a0 st) =
        format_token_result (q\<lparr>token_name := token_name m, token_symbol := token_symbol m\<rparr>)"
    using res by simp
  from eff once ph none some flag show ?thesis
    by (intro conjI allI impI) (simp_all only: conj_commute, blast+)
qed

theorem oracle_enrichment_witness:
  "fst (fetch_token_info (world_of oracle_answers) ''TOKENAAA'' initial_state) =
     Inr \<lparr>res_price = ''$2.0000'', res_price_raw = Some (PFloat (Fin 2)), res_liquidity = ''$0'',
          res_market_cap = ''$0'', res_token_name = PStr ''Unknown'',
          res_token_symbol = PStr ''???'', res_source = ''Jupiter'', res_error = False,
          res_error_msg = None\<rparr> \<and>
   fst (fetch_token_info (world_of oracle_registry_answers) ''TOKENAAA'' initial_state) =
     Inr \<lparr>res_price = ''$2.0000'', res_price_raw = Some (PFloat (Fin 2)), res_liquidity = ''$0'',
          res_market_cap = ''$0'', res_token_name = PStr ''Alpha'',
          res_token_symbol = PStr ''AAA'', res_source = ''Jupiter'', res_error = False,
          res_error_msg = None\<rparr> \<and>
   new_effects initial_state
     (snd (fetch_token_info (world_of oracle_answers) ''TOKENAAA'' initial_state)) =
     [Http_request DexScreener ''TOKENAAA'', Http_request Birdeye ''TOKENAAA'',
      Http_request Jupiter ''TOKENAAA'', Http_request Helius ''TOKENAAA'']"
proof -
  let ?q = "\<lparr>price = PStr ''2'', liquidity = PInt 0, market_cap = PInt 0,
             token_name = PStr ''Unknown'', token_symbol = PStr ''???'', source = ''Jupiter''\<rparr>"
  let ?m = "\<lparr>price = PNone, liquidity = PInt 0, market_cap = PInt 0, token_name = PStr ''Alpha'',
             token_symbol = PStr ''AAA'', source = ''Helius''\<rparr>"
  have a: "with_price (adapter_result (world_of oracle_answers) DexScreener (strip ''TOKENAAA'')) = None"
    "with_price (adapter_result (world_of oracle_answers) Birdeye (strip ''TOKENAAA'')) = None"
    "with_price (adapter_result (world_of oracle_answers) Jupiter (strip ''TOKENAAA'')) = Some ?q"
    by (simp_all add: strip_plain oracle_results with_price_def)
  have b: "with_price (adapter_result (world_of oracle_registry_answers) DexScreener (strip ''TOKENAAA'')) = None"
    "with_price (adapter_result (world_of oracle_registry_answers) Birdeye (strip ''TOKENAAA'')) = None"
    "with_price (adapter_result (world_of oracle_registry_answers) Jupiter (strip ''TOKENAAA'')) = Some ?q"
    by (simp_all add: strip_plain oracle_registry_results with_price_def)
  have ha: "adapter_result (world_of oracle_answers) Helius (strip ''TOKENAAA'') = None"
    by (simp add: strip_plain oracle_results)
  have hb: "adapter_result (world_of oracle_registry_answers) Helius (strip ''TOKENAAA'') = Some ?m"
    by (simp add: strip_plain oracle_registry_results)
  note ta = oracle_enrichment[OF a, of initial_state]
  note tb = oracle_enrichment[OF b, of initial_state]
  from ta ha have 1: "fst (fetch_token_info (world_of oracle_answers) ''TOKENAAA'' initial_state) =
      format_token_result ?q"
    by blast
  from tb hb have 2: "fst (fetch_token_info (world_of oracle_registry_answers) ''TOKENAAA'' initial_state) =
      format_token_result (?q\<lparr>token_name := token_name ?m, token_symbol := token_symbol ?m\<rparr>)"
    by blast
  from ta have 3: "new_effects initial_state
      (snd (fetch_token_info (world_of oracle_answers) ''TOKENAAA'' initial_state)) =
      requests [DexScreener, Birdeye, Jupiter, Helius] (strip ''TOKENAAA'')"
    by blast
  show ?thesis
    unfolding 1 2 3 by (simp add: format_oracle_quote requests_def strip_plain)
qed

subsection \<open>Where the pipeline and the adapters fall short\<close>

text \<open>
  C7 does not hold of the code: \<^verbatim>\<open>format_token_result\<close> calls \<^verbatim>\<open>float\<close> on the price
  outside any \<^verbatim>\<open>try\<close>. When DexScreener answers with the price \<open>abc\<close>, the adapter returns
  a quote with this price, the pipeline accepts it as usable, and \<^verbatim>\<open>fetch_token_info\<close>
  raises \<^verbatim>\<open>ValueError\<close>; the message handler, which called it after the user asked to
  buy, raises it in turn, having sent nothing but the loading message.
\<close>

theorem fetch_token_info_raises_on_unparseable_price:
  "adapter_result (world_of unparseable_price_answers) DexScreener ''TOKENAAA'' =
     Some \<lparr>price = PStr ''abc'', liquidity = PInt 0, market_cap = PInt 0,
           token_name = PStr ''Unknown'', token_symbol = PStr ''???'', source = ''DexScreener''\<rparr> \<and>
   fst (fetch_token_info (world_of unparseable_price_answers) ''TOKENAAA'' initial_state) =
     Inl ValueError \<and>
   fst (handle_messages (world_of unparseable_price_answers) 1 ''TOKENAAA''
          (dispatch (world_of unparseable_price_answers) (Callback_query 1 ''buy'') initial_state)) =
     Inl ValueError \<and>
   new_effects initial_state
     (snd (handle_messages (world_of unparseable_price_answers) 1 ''TOKENAAA''
        (dispatch (world_of unparseable_price_answers) (Callback_query 1 ''buy'') initial_state))) =
     [Answer_callback, Reply Buy_prompt, Reply Loading, Http_request DexScreener ''TOKENAAA'']"
  by (intro conjI; code_simp)

text \<open>
  C6 does not hold of the code: the DexScreener adapter rejects a price that is false or the
  string \<open>0\<close>, and no other way of writing zero. When DexScreener answers with the price
  \<open>0.0\<close>, whose value is zero, the adapter returns a quote with this price, and the pipeline
  shows it as \<open>$0\<close> with \<^verbatim>\<open>error\<close> false.
\<close>

theorem dexscreener_returns_zero_price:
  "adapter_result (world_of zero_price_answers) DexScreener ''TOKENAAA'' =
     Some \<lparr>price = PStr ''0.0'', liquidity = PInt 0, market_cap = PInt 0,
           token_name = PStr ''Unknown'', token_symbol = PStr ''???'', source = ''DexScreener''\<rparr> \<and>
   py_float (PStr ''0.0'') = Inr (Fin 0) \<and>
   fst (fetch_token_info (world_of zero_price_answers) ''TOKENAAA'' initial_state) =
     Inr \<lparr>res_price = ''$0'', res_price_raw = Some (PFloat (Fin 0)), res_liquidity = ''$0'',
          res_market_cap = ''$0'', res_token_name = PStr ''Unknown'',
          res_token_symbol = PStr ''???'', res_source = ''DexScreener'', res_error = False,
          res_error_msg = None\<rparr>"
  by (intro conjI; code_simp)

lemma zero_price_results:
  "\<not> usable_price (adapter_result (world_of zero_price_answers) DexScreener ''TOKENAAA'')"
  "\<not> usable_price (adapter_result (world_of zero_price_answers) Birdeye ''TOKENAAA'')"
  "\<not> usable_price (adapter_result (world_of zero_price_answers) Jupiter ''TOKENAAA'')"
  "\<not> usable_price (adapter_result (world_of zero_price_answers) Helius ''TOKENAAA'')"
  by code_simp+

text \<open>
  C1 does not hold of the code. The adapters are consulted in the fixed order and a quote with
  a price from DexScreener ends the resolution there, but the resolution need not end in one
  of the five outcomes, each of which returns a result: when DexScreener answers with the
  price \<open>abc\<close>, a price that is there and is not zero, the only request is the one to
  DexScreener, and \<^verbatim>\<open>fetch_token_info\<close> raises where it should return the formatted
  quote, so that none of the five outcomes is the case. The
  cause is the call of \<^verbatim>\<open>float\<close> outside any \<^verbatim>\<open>try\<close> in \<^verbatim>\<open>format_token_result\<close>, as for C7.
\<close>

theorem fetch_token_info_no_outcome_on_unparseable_price:
  "usable_price (adapter_result (world_of unparseable_price_answers) DexScreener (strip ''TOKENAAA'')) \<and>
   new_effects initial_state
     (snd (fetch_token_info (world_of unparseable_price_answers) ''TOKENAAA'' initial_state)) =
     requests [DexScreener] (strip ''TOKENAAA'') \<and>
   (\<forall>r. fst (fetch_token_info (world_of unparseable_price_answers) ''TOKENAAA'' initial_state) \<noteq>
      Inr r) \<and>
   (\<forall>oc. \<not> is_outcome oc (world_of unparseable_price_answers) ''TOKENAAA'' initial_state)"
proof (intro conjI allI)
  let ?w = "world_of unparseable_price_answers"
  show "usable_price (adapter_result ?w DexScreener (strip ''TOKENAAA''))"
    by code_simp
  show "new_effects initial_state (snd (fetch_token_info ?w ''TOKENAAA'' initial_state)) =
      requests [DexScreener] (strip ''TOKENAAA'')"
    by code_simp
  have raised: "fst (fetch_token_info ?w ''TOKENAAA'' initial_state) = Inl ValueError"
    by code_simp
  then show "fst (fetch_token_info ?w ''TOKENAAA'' initial_state) \<noteq> Inr r" for r
    by simp
  have dex: "usable_price (adapter_result ?w DexScreener (strip ''TOKENAAA''))"
    by code_simp
  show "\<not> is_outcome oc ?w ''TOKENAAA'' initial_state" for oc
    using raised dex
    by (cases oc) (auto simp: returns_formatted_def split: option.splits)
qed

text \<open>
  C2 does not hold of the code. When \<^verbatim>\<open>error\<close> is false the price shown starts with \<open>$\<close>
  and is not \<open>Price Unavailable\<close>, but \<^verbatim>\<open>error\<close> can be false with no adapter having
  produced a usable price: when DexScreener answers with the price \<open>0.0\<close> and the other
  adapters with nothing, no adapter has a usable price, and the result has \<^verbatim>\<open>error\<close>
  false and the price \<open>$0\<close>. The cause is the test of the DexScreener adapter, which lets
  this zero through, as for C6.
\<close>

theorem error_false_without_usable_price:
  "(\<forall>ad. \<not> usable_price (adapter_result (world_of zero_price_answers) ad (strip ''TOKENAAA''))) \<and>
   (\<exists>r. fst (fetch_token_info (world_of zero_price_answers) ''TOKENAAA'' initial_state) = Inr r \<and>
        \<not> res_error r \<and> res_price r = ''$0'' \<and> res_price r \<noteq> ''Price Unavailable'')"
proof (intro conjI allI)
  let ?w = "world_of zero_price_answers"
  show "\<not> usable_price (adapter_result ?w ad (strip ''TOKENAAA''))" for ad
    using zero_price_results by (cases ad) (simp_all add: strip_plain)
  have "fst (fetch_token_info ?w ''TOKENAAA'' initial_state) =
     Inr \<lparr>res_price = ''$0'', res_price_raw = Some (PFloat (Fin 0)), res_liquidity = ''$0'',
          res_market_cap = ''$0'', res_token_name = PStr ''Unknown'',
          res_token_symbol = PStr ''???'', res_source = ''DexScreener'', res_error = False,
          res_error_msg = None\<rparr>"
    by code_simp
  then show "\<exists>r. fst (fetch_token_info ?w ''TOKENAAA'' initial_state) = Inr r \<and>
      \<not> res_error r \<and> res_price r = ''$0'' \<and> res_price r \<noteq> ''Price Unavailable''"
    by simp
qed


section \<open>The conversation: proofs\<close>

lemma fetch_token_info_users:
  "fetch_token_info w a st = (r, st') \<Longrightarrow> users st' = users st"
  using users_fetch_token_info[of w a st] by simp

lemmas handler_defs =
  dispatch_def start_def button_def set_private_key_def handle_messages_def
  seq_def ret_def try_pass_def telegram_def get_sol_balance_def ensure_user_def lookup_user_def
  modify_user_def flag_set_def new_user_def emit_def Let_def

lemma flag_after_dispatch_contract:
  "flag_set awaiting_contract (users (dispatch w u st)) uid \<Longrightarrow>
     flag_set awaiting_contract (users st) uid \<or> u = Callback_query uid ''buy''"
  by (cases u)
     (auto simp: handler_defs dest!: fetch_token_info_users
        split: option.splits prod.splits sum.splits if_splits)

lemma flag_after_dispatch_withdraw:
  "flag_set awaiting_withdraw_x_amount (users (dispatch w u st)) uid \<Longrightarrow>
     flag_set awaiting_withdraw_x_amount (users st) uid \<or> u = Callback_query uid ''withdraw_x''"
  by (cases u)
     (auto simp: handler_defs dest!: fetch_token_info_users
        split: option.splits prod.splits sum.splits if_splits)

lemma fetch_token_info_state:
  assumes "fetch_token_info w a st = (r, st')"
  shows "users st' = users st \<and> (\<exists>es. trace st' = trace st @ map (\<lambda>e. (e, users st)) es)"
proof -
  have "\<exists>es. trace (emit e1 st) = trace st @ map (\<lambda>e. (e, users st)) es" for e1
    by (rule exI[of _ "[e1]"]) (simp add: trace_emit)
  moreover have "\<exists>es. trace (emit e2 (emit e1 st)) = trace st @ map (\<lambda>e. (e, users st)) es"
    for e1 e2
    by (rule exI[of _ "[e1, e2]"]) (simp add: trace_emit users_emit)
  moreover have "\<exists>es. trace (emit e4 (emit e3 (emit e2 (emit e1 st)))) =
      trace st @ map (\<lambda>e. (e, users st)) es" for e1 e2 e3 e4
    by (rule exI[of _ "[e1, e2, e3, e4]"]) (simp add: trace_emit users_emit)
  ultimately show ?thesis
    using assms users_fetch_token_info[of w a st]
    by (auto simp: fetch_token_info_eq Let_def split: option.splits)
qed

lemma handle_messages_idle:
  "\<not> flag_set awaiting_contract (users st) uid \<Longrightarrow>
   \<not> flag_set awaiting_withdraw_x_amount (users st) uid \<Longrightarrow>
   handle_messages w uid t st = (Inr (), st)"
  by (simp add: handle_messages_def ret_def)

lemma handle_messages_snapshots:
  "(e, snap) \<in> set (new_entries st (snd (handle_messages w uid t st))) \<Longrightarrow>
   is_request e \<or> is_result_view e \<Longrightarrow> \<not> flag_set awaiting_contract snap uid"
  by (auto simp: handler_defs new_entries_def dest!: fetch_token_info_state
        split: option.splits prod.splits sum.splits if_splits)

lemma handle_messages_clears:
  "flag_set awaiting_contract (users st) uid \<Longrightarrow>
   \<not> flag_set awaiting_withdraw_x_amount (users st) uid \<Longrightarrow>
   \<not> flag_set awaiting_contract (users (snd (handle_messages w uid t st))) uid \<and>
   \<not> flag_set awaiting_withdraw_x_amount (users (snd (handle_messages w uid t st))) uid"
  by (auto simp: handler_defs dest!: fetch_token_info_state
        split: option.splits prod.splits sum.splits if_splits)

lemma dropWhile_unchanged: "xs = [] \<or> \<not> P (hd xs) \<Longrightarrow> dropWhile P xs = xs"
  by (cases xs) auto

lemma strip_idem: "strip (strip s) = strip s"
proof -
  define t where "t = dropWhile py_isspace s"
  define u where "u = dropWhile py_isspace (rev t)"
  have s: "strip s = rev u"
    by (simp add: strip_def lstrip_def t_def u_def)
  have hu: "u = [] \<or> \<not> py_isspace (hd u)"
    unfolding u_def by (metis hd_dropWhile)
  have ht: "t = [] \<or> \<not> py_isspace (hd t)"
    unfolding t_def by (metis hd_dropWhile)
  have "rev u = [] \<or> \<not> py_isspace (hd (rev u))"
  proof (cases "u = []")
    case True
    then show ?thesis by simp
  next
    case False
    have "rev t = takeWhile py_isspace (rev t) @ u"
      by (simp add: u_def)
    with False have "last (rev t) = last u"
      by (metis last_appendR)
    moreover from False have "t \<noteq> []"
      by (auto simp: u_def)
    ultimately have "last u = hd t"
      by (simp add: last_rev)
    with ht \<open>t \<noteq> []\<close> False show ?thesis
      by (simp add: hd_rev)
  qed
  then have "dropWhile py_isspace (rev u) = rev u"
    by (rule dropWhile_unchanged)
  moreover have "dropWhile py_isspace u = u"
    using hu by (rule dropWhile_unchanged)
  ultimately show ?thesis
    by (simp add: s) (simp add: strip_def lstrip_def)
qed

lemma fetch_token_info_first_request:
  "Http_request DexScreener (strip a) \<in> set (new_effects st (snd (fetch_token_info w a st)))"
  by (simp add: fetch_token_info_eq Let_def new_effects_def new_entries_def trace_emit users_emit
        split: option.splits)

lemma new_effects_mono:
  assumes "trace st1 = trace st @ xs" and "trace st2 = trace st1 @ ys"
  shows "set (new_effects st1 st2) \<subseteq> set (new_effects st st2)"
  using assms by (auto simp: new_effects_def new_entries_def)

lemma handle_messages_invokes:
  assumes "flag_set awaiting_contract (users st) uid"
    and "\<not> flag_set awaiting_withdraw_x_amount (users st) uid"
    and "telegram_ok w (length (trace st))"
  shows "Http_request DexScreener (strip t) \<in>
           set (new_effects st (snd (handle_messages w uid t st)))"
proof -
  from assms(1) obtain u where u: "users st uid = Some u"
    by (auto simp: flag_set_def split: option.splits)
  define st1 where "st1 = st\<lparr>users := (users st)(uid \<mapsto> u\<lparr>awaiting_contract := Some False\<rparr>)\<rparr>"
  define st2 where "st2 = emit (Reply Loading) st1"
  obtain r st3 where f: "fetch_token_info w (strip t) st2 = (r, st3)"
    by (cases "fetch_token_info w (strip t) st2")
  from fetch_token_info_state[OF f] obtain es where
    es: "trace st3 = trace st2 @ map (\<lambda>e. (e, users st2)) es" by blast
  have req: "Http_request DexScreener (strip t) \<in> set (new_effects st2 st3)"
    using fetch_token_info_first_request[of "strip t" st2 w] f by (simp add: strip_idem)
  have t2: "trace st2 = trace st @ [(Reply Loading, users st1)]"
    by (simp add: st2_def st1_def trace_emit)
  have in3: "Http_request DexScreener (strip t) \<in> set (new_effects st st3)"
    using req t2 es by (auto simp: new_effects_def new_entries_def)
  have "\<exists>ys. trace (snd (handle_messages w uid t st)) = trace st3 @ ys"
    using assms u f
    by (cases r)
       (auto simp: handler_defs st1_def st2_def split: option.splits prod.splits sum.splits)
  then obtain ys where "trace (snd (handle_messages w uid t st)) = trace st3 @ ys" ..
  with in3 t2 es show ?thesis
    by (auto simp: new_effects_def new_entries_def)
qed

subsection \<open>The awaiting flags\<close>

text \<open>
  C8 as stated fails: the buy button sets \<^verbatim>\<open>awaiting_contract\<close> and the withdraw button sets
  \<^verbatim>\<open>awaiting_withdraw_x_amount\<close>, and neither looks at the other flag. After a user
  has pressed buy and then withdraw, both flags are set.
\<close>

theorem both_flags_counterexample:
  "\<not> both_flags initial_state 1 \<and> both_flags (run buy_then_withdraw initial_state) 1"
  by (intro conjI; code_simp)

text \<open>
  C8, as the code has it: no handler tests or clears the other flag when it raises one, so
  at most one awaiting flag of a user is set for as long as each action of the user that
  raises a flag arrives while the other flag is not set. No other update raises a flag.
\<close>

theorem one_flag_when_raised_from_idle:
  assumes "\<not> both_flags st uid" and "raised_from_idle uid us st"
  shows "\<not> both_flags (run us st) uid"
  using assms
proof (induction us arbitrary: st)
  case Nil
  then show ?case by simp
next
  case (Cons wu us)
  obtain w u where wu: "wu = (w, u)"
    by (cases wu)
  from Cons.prems(2) have guard:
    "u = Callback_query uid ''buy'' \<longrightarrow> \<not> flag_set awaiting_withdraw_x_amount (users st) uid"
    "u = Callback_query uid ''withdraw_x'' \<longrightarrow> \<not> flag_set awaiting_contract (users st) uid"
    and rest: "raised_from_idle uid us (dispatch w u st)"
    by (simp_all add: wu)
  have "\<not> both_flags (dispatch w u st) uid"
  proof
    assume both: "both_flags (dispatch w u st) uid"
    then have c: "flag_set awaiting_contract (users st) uid \<or> u = Callback_query uid ''buy''"
      and x: "flag_set awaiting_withdraw_x_amount (users st) uid \<or>
              u = Callback_query uid ''withdraw_x''"
      using flag_after_dispatch_contract[of w u st uid]
        flag_after_dispatch_withdraw[of w u st uid]
      by (simp_all add: both_flags_def)
    with guard Cons.prems(1) show False
      by (auto simp: both_flags_def)
  qed
  from Cons.IH[OF this rest] show ?case
    by (simp add: wu)
qed

theorem one_flag_when_raised_from_idle_witness:
  "\<not> both_flags initial_state 1 \<and> raised_from_idle 1 one_at_a_time initial_state \<and>
   \<not> both_flags (run one_at_a_time initial_state) 1"
proof -
  have a: "\<not> both_flags initial_state 1"
    by code_simp
  have b: "raised_from_idle 1 one_at_a_time initial_state"
    by code_simp
  from one_flag_when_raised_from_idle[OF a b] a b show ?thesis
    by simp
qed

subsection \<open>The message handler\<close>

text \<open>
  C9: a text message of a user with no awaiting flag set changes nothing and has no effect,
  so the pipeline is not invoked. Whatever the state, every request of the pipeline and
  every message showing its result takes place with \<^verbatim>\<open>awaiting_contract\<close> of the user no
  longer set. When \<^verbatim>\<open>awaiting_contract\<close> is the flag that is set, the pipeline is invoked for
  the stripped text once the loading message is sent, the flag is not set afterwards, and a
  second message of the user changes nothing and has no effect.
\<close>

theorem handle_messages_flag_discipline:
  "(\<not> flag_set awaiting_contract (users st) uid \<and>
    \<not> flag_set awaiting_withdraw_x_amount (users st) uid \<longrightarrow>
      handle_messages w uid t st = (Inr (), st)) \<and>
   (\<forall>(e, snap) \<in> set (new_entries st (snd (handle_messages w uid t st))).
      is_request e \<or> is_result_view e \<longrightarrow> \<not> flag_set awaiting_contract snap uid) \<and>
   (flag_set awaiting_contract (users st) uid \<and>
    \<not> flag_set awaiting_withdraw_x_amount (users st) uid \<longrightarrow>
      (telegram_ok w (length (trace st)) \<longrightarrow>
         Http_request DexScreener (strip t) \<in>
           set (new_effects st (snd (handle_messages w uid t st)))) \<and>
      \<not> flag_set awaiting_contract (users (snd (handle_messages w uid t st))) uid \<and>
      handle_messages w' uid t' (snd (handle_messages w uid t st)) =
        (Inr (), snd (handle_messages w uid t st)))"
proof (intro conjI impI ballI)
  assume "\<not> flag_set awaiting_contract (users st) uid \<and>
    \<not> flag_set awaiting_withdraw_x_amount (users st) uid"
  then show "handle_messages w uid t st = (Inr (), st)"
    by (simp add: handle_messages_idle)
next
  fix x
  assume "x \<in> set (new_entries st (snd (handle_messages w uid t st)))"
  then show "case x of (e, snap) \<Rightarrow>
      is_request e \<or> is_result_view e \<longrightarrow> \<not> flag_set awaiting_contract snap uid"
    using handle_messages_snapshots[of "fst x" "snd x" st w uid t] by (cases x) auto
next
  assume a: "flag_set awaiting_contract (users st) uid \<and>
    \<not> flag_set awaiting_withdraw_x_amount (users st) uid"
  {
    assume "telegram_ok w (length (trace st))"
    with a show "Http_request DexScreener (strip t) \<in>
        set (new_effects st (snd (handle_messages w uid t st)))"
      by (simp add: handle_messages_invokes)
  }
  from a handle_messages_clears[of st uid w t]
  show "\<not> flag_set awaiting_contract (users (snd (handle_messages w uid t st))) uid"
    by simp
  from a handle_messages_clears[of st uid w t]
  show "handle_messages w' uid t' (snd (handle_messages w uid t st)) =
      (Inr (), snd (handle_messages w uid t st))"
    by (simp add: handle_messages_idle)
qed

theorem handle_messages_flag_discipline_witness:
  "handle_messages (world_of primary_answers) 1 ''hello'' initial_state = (Inr (), initial_state) \<and>
   flag_set awaiting_contract (users asked_to_buy) 1 \<and>
   \<not> flag_set awaiting_withdraw_x_amount (users asked_to_buy) 1 \<and>
   new_effects asked_to_buy
     (snd (handle_messages (world_of primary_answers) 1 '' TOKENAAA '' asked_to_buy)) ! 1 =
     Http_request DexScreener ''TOKENAAA'' \<and>
   \<not> flag_set awaiting_contract
     (snd (new_entries asked_to_buy
        (snd (handle_messages (world_of primary_answers) 1 '' TOKENAAA '' asked_to_buy)) ! 1)) 1 \<and>
   \<not> flag_set awaiting_contract
     (users (snd (handle_messages (world_of primary_answers) 1 '' TOKENAAA '' asked_to_buy))) 1 \<and>
   handle_messages (world_of primary_answers) 1 ''TOKENAAA''
     (snd (handle_messages (world_of primary_answers) 1 '' TOKENAAA '' asked_to_buy)) =
     (Inr (), snd (handle_messages (world_of primary_answers) 1 '' TOKENAAA '' asked_to_buy))"
proof -
  let ?w = "world_of primary_answers"
  let ?st = "snd (handle_messages ?w 1 '' TOKENAAA '' asked_to_buy)"
  have idle: "\<not> flag_set awaiting_contract (users initial_state) 1 \<and>
      \<not> flag_set awaiting_withdraw_x_amount (users initial_state) 1"
    by code_simp
  have waiting: "flag_set awaiting_contract (users asked_to_buy) 1 \<and>
      \<not> flag_set awaiting_withdraw_x_amount (users asked_to_buy) 1"
    by code_simp
  have len: "length (new_entries asked_to_buy ?st) = 4"
    by code_simp
  have second: "new_effects asked_to_buy ?st ! 1 = Http_request DexScreener ''TOKENAAA''"
    by code_simp
  have mem: "new_entries asked_to_buy ?st ! 1 \<in> set (new_entries asked_to_buy ?st)"
    using len by simp
  have fst: "fst (new_entries asked_to_buy ?st ! 1) = Http_request DexScreener ''TOKENAAA''"
    using second len by (simp add: new_effects_def)
  note t0 = handle_messages_flag_discipline[of initial_state 1 ?w "''hello''"]
  note t1 = handle_messages_flag_discipline[of asked_to_buy 1 ?w "'' TOKENAAA ''" ?w "''TOKENAAA''"]
  from t0 idle have 1: "handle_messages ?w 1 ''hello'' initial_state = (Inr (), initial_state)"
    by blast
  from t1 mem fst have 2: "\<not> flag_set awaiting_contract (snd (new_entries asked_to_buy ?st ! 1)) 1"
    by (cases "new_entries asked_to_buy ?st ! 1") auto
  from t1 waiting have 3: "\<not> flag_set awaiting_contract (users ?st) 1"
    and 4: "handle_messages ?w 1 ''TOKENAAA'' ?st = (Inr (), ?st)"
    by blast+
  from 1 2 3 4 waiting second show ?thesis
    by blast
qed

end
